theory Spec2Isabelle
  imports Main "HOL-Library.Multiset"
begin

section \<open>Data model\<close>

text \<open>
  The documents of the Mongoose models, one record per schema. An ObjectId is a natural
  number, a Date a number of milliseconds. Field names follow the schemas; a prefix is
  added only where two schemas share a name.
\<close>

type_synonym oid = nat
type_synonym date = int

text \<open>A JavaScript string is the list of its UTF-16 code units; \<open>length\<close> is its
  \<open>.length\<close>. \<open>js\<close> turns an ASCII literal into one. Messages the handlers send and
  log are constants of the program and stay literals.\<close>

type_synonym jstring = "nat list"

definition js :: "string \<Rightarrow> jstring" where
  "js s = map of_char s"

datatype status = Pending | Approved | Rejected

datatype role = Student | Teacher | Admin | Alumni

datatype driver = Local | S3

datatype error =
    ValidationError string
  | DuplicateKey
  | DatabaseError
  | ENOENT
  | S3Error
  | NegativeSkip

text \<open>What a handler sends: \<open>res.json\<close> with \<open>success: true\<close>, \<open>res.status(c).json\<close>
  with \<open>success: false\<close> and a message, or the 400 reply that carries the validator's
  errors. \<open>Thrown\<close> stands for a handler that sends nothing because an awaited call
  rejected and no \<open>catch\<close> of the handler took the error.\<close>

datatype 'a response =
    Ok nat 'a
  | Fail nat string
  | Invalid "string list"
  | Thrown error

record file_desc =
  originalName :: jstring
  storedName :: jstring
  mimeType :: jstring
  fsize :: nat
  key :: jstring

record resource =
  r_id :: oid
  title :: jstring
  description :: jstring
  r_file :: file_desc
  uploader :: oid
  school :: oid
  subject :: jstring
  grade :: jstring
  strand :: "jstring option"
  tags :: "jstring list"
  status :: status
  moderationNotes :: "jstring option"
  moderatedBy :: "oid option"
  moderatedAt :: "date option"
  downloadCount :: int
  isPublic :: bool
  createdAt :: date
  updatedAt :: date

record moderationLog =
  log_resource :: oid
  moderator :: oid
  action :: status
  log_notes :: "jstring option"
  previousStatus :: status
  newStatus :: status
  log_createdAt :: date

record download =
  user :: oid
  dl_resource :: oid
  downloadedAt :: date
  ipAddress :: jstring
  userAgent :: jstring
  offline :: bool

record school_statistics =
  totalResources :: int
  totalDownloads :: int
  activeUsers :: int

record school_doc =
  name :: jstring
  code :: jstring
  isActive :: bool
  statistics :: school_statistics

record user_doc =
  u_id :: oid
  u_role :: role
  u_school :: oid
  u_isActive :: bool

text \<open>The persistent state: the five collections, the files of the local upload
  directory, the keys of the S3 bucket, and the lines written by \<open>console.error\<close>.\<close>

record state =
  resources :: "resource list"
  moderationLogs :: "moderationLog list"
  downloads :: "download list"
  schools :: "oid \<rightharpoonup> school_doc"
  users :: "user_doc list"
  uploadDir :: "jstring list"
  bucket :: "jstring list"
  console :: "string list"

text \<open>What a handler reads from outside the request: the storage driver chosen by
  \<open>STORAGE_DRIVER\<close>, the clock, the ObjectId the driver generates for a created document,
  which of the handler's awaited database calls reject, and whether the S3 client
  rejects. The database calls of a handler are numbered from 0 in program order, starting
  at its first write: the writes and the \<open>populate\<close> reads that follow them. The lookup
  that opens a handler is taken to answer, and so are the queries of the handlers that
  write nothing: a rejection there ends the request with no effect on what is stored.\<close>

record env =
  driver :: driver
  now :: date
  newId :: oid
  dbFail :: "nat set"
  s3Fail :: bool

text \<open>\<open>req.user\<close> as the \<open>protect\<close> middleware sets it.\<close>

record principal =
  uid :: oid
  urole :: role
  uschool :: oid

section \<open>Strings\<close>

text \<open>The code units \<open>String.prototype.trim\<close> strips: the white space and line
  terminators of the language (tab, LF, VT, FF, CR, space, NBSP, U+1680,
  U+2000 to U+200A, U+2028, U+2029, U+202F, U+205F, U+3000, U+FEFF).\<close>

definition is_space :: "nat \<Rightarrow> bool" where
  "is_space c = (c \<in> set [0x09, 0x0A, 0x0B, 0x0C, 0x0D, 0x20, 0xA0, 0x1680, 0x2028, 0x2029,
                           0x202F, 0x205F, 0x3000, 0xFEFF] \<or> (0x2000 \<le> c \<and> c \<le> 0x200A))"

definition trim :: "jstring \<Rightarrow> jstring" where
  "trim s = rev (dropWhile is_space (rev (dropWhile is_space s)))"

text \<open>\<open>x || null\<close> on an optional string: the empty string is falsy.\<close>

definition truthy :: "jstring option \<Rightarrow> jstring option" where
  "truthy x = (case x of None \<Rightarrow> None | Some s \<Rightarrow> if s = [] then None else Some s)"

section \<open>Model layer\<close>

definition findById :: "oid \<Rightarrow> state \<Rightarrow> resource option" where
  "findById i s = find (\<lambda>r. r_id r = i) (resources s)"

text \<open>The validators of \<open>resourceSchema\<close>: required strings and length caps.\<close>

definition validate_resource :: "resource \<Rightarrow> string option" where
  "validate_resource r =
     (if title r = [] then Some ''Title is required''
      else if 200 < length (title r) then Some ''Title cannot exceed 200 characters''
      else if description r = [] then Some ''Description is required''
      else if 1000 < length (description r) then Some ''Description cannot exceed 1000 characters''
      else if originalName (r_file r) = [] \<or> storedName (r_file r) = [] \<or> mimeType (r_file r) = []
              \<or> key (r_file r) = [] then Some ''Path file is required''
      else if subject r = [] then Some ''Subject is required''
      else if grade r = [] then Some ''Grade level is required''
      else if (case moderationNotes r of None \<Rightarrow> False | Some n \<Rightarrow> 500 < length n)
        then Some ''Moderation notes cannot exceed 500 characters''
      else None)"

text \<open>\<open>doc.save()\<close> as database write number \<open>n\<close> of the handler: validation, then the
  write, which replaces the stored document of the same id and stamps \<open>updatedAt\<close>. The
  whole document is validated; a stored document passed these validators when it was
  created, so this is the check of the fields the handler changed.\<close>

definition Resource_save :: "env \<Rightarrow> nat \<Rightarrow> resource \<Rightarrow> state \<Rightarrow> error + (resource \<times> state)" where
  "Resource_save e n doc s =
     (case validate_resource doc of
        Some m \<Rightarrow> Inl (ValidationError m)
      | None \<Rightarrow>
          if n \<in> dbFail e then Inl DatabaseError
          else let doc' = doc\<lparr>updatedAt := now e\<rparr>
               in Inr (doc', s\<lparr>resources :=
                    map (\<lambda>r. if r_id r = r_id doc then doc' else r) (resources s)\<rparr>))"

text \<open>The table of the \<open>pre('save')\<close> hook of \<open>moderationLogSchema\<close>.\<close>

definition validTransitions :: "status \<Rightarrow> status list" where
  "validTransitions p =
     (case p of Pending \<Rightarrow> [Approved, Rejected] | Approved \<Rightarrow> [Rejected] | Rejected \<Rightarrow> [Approved])"

definition pre_save :: "moderationLog \<Rightarrow> error option" where
  "pre_save l =
     (if newStatus l \<in> set (validTransitions (previousStatus l)) then None
      else Some (ValidationError ''Invalid status transition''))"

text \<open>\<open>ModerationLog.create\<close> as database write number \<open>n\<close>: the schema's setters and
  validators (\<open>notes\<close> trimmed and capped, \<open>action\<close> in its enum), the hook, the insert.\<close>

definition ModerationLog_create :: "env \<Rightarrow> nat \<Rightarrow> moderationLog \<Rightarrow> state \<Rightarrow> error + state" where
  "ModerationLog_create e n l s =
     (let l' = l\<lparr>log_notes := map_option trim (log_notes l), log_createdAt := now e\<rparr>
      in if action l' = Pending then Inl (ValidationError ''action is not a valid enum value'')
         else if (case log_notes l' of None \<Rightarrow> False | Some x \<Rightarrow> 500 < length x)
           then Inl (ValidationError ''Notes cannot exceed 500 characters'')
         else (case pre_save l' of
                 Some err \<Rightarrow> Inl err
               | None \<Rightarrow>
                   if n \<in> dbFail e then Inl DatabaseError
                   else Inr (s\<lparr>moderationLogs := moderationLogs s @ [l']\<rparr>)))"

text \<open>\<open>Resource.findByIdAndDelete\<close>: removes the document \<open>findById\<close> finds, if any.\<close>

definition Resource_findByIdAndDelete :: "env \<Rightarrow> nat \<Rightarrow> oid \<Rightarrow> state \<Rightarrow> error + state" where
  "Resource_findByIdAndDelete e n i s =
     (if n \<in> dbFail e then Inl DatabaseError
      else case findById i s of
             None \<Rightarrow> Inr s
           | Some r \<Rightarrow> Inr (s\<lparr>resources := remove1 r (resources s)\<rparr>))"


text \<open>\<open>School.findByIdAndUpdate(id, {$inc: ...})\<close>: no document, no change.\<close>

definition School_findByIdAndUpdate ::
  "env \<Rightarrow> nat \<Rightarrow> oid \<Rightarrow> (school_statistics \<Rightarrow> school_statistics) \<Rightarrow> state \<Rightarrow> error + state" where
  "School_findByIdAndUpdate e n i f s =
     (if n \<in> dbFail e then Inl DatabaseError
      else case schools s i of
             None \<Rightarrow> Inr s
           | Some sch \<Rightarrow> Inr (s\<lparr>schools := (schools s)(i \<mapsto> sch\<lparr>statistics := f (statistics sch)\<rparr>)\<rparr>))"

text \<open>\<open>resourceSchema.methods.incrementDownload\<close>: the counter and \<open>save\<close> (write 0), then
  the school's \<open>totalDownloads\<close> (write 1). A failure keeps what was written before it.\<close>

definition incrementDownload :: "env \<Rightarrow> resource \<Rightarrow> state \<Rightarrow> error option \<times> state" where
  "incrementDownload e doc s =
     (case Resource_save e 0 (doc\<lparr>downloadCount := downloadCount doc + 1\<rparr>) s of
        Inl err \<Rightarrow> (Some err, s)
      | Inr (doc1, s1) \<Rightarrow>
          (case School_findByIdAndUpdate e 1 (school doc1)
                  (\<lambda>st. st\<lparr>totalDownloads := totalDownloads st + 1\<rparr>) s1 of
             Inl err \<Rightarrow> (Some err, s1)
           | Inr s2 \<Rightarrow> (None, s2)))"

text \<open>\<open>Download.create\<close> under the unique index on \<open>{user, resource}\<close>: a second document
  for the pair is refused with the duplicate-key error.\<close>

definition Download_create :: "env \<Rightarrow> nat \<Rightarrow> download \<Rightarrow> state \<Rightarrow> error + state" where
  "Download_create e n d s =
     (if n \<in> dbFail e then Inl DatabaseError
      else if \<exists>d' \<in> set (downloads s). user d' = user d \<and> dl_resource d' = dl_resource d
        then Inl DuplicateKey
      else Inr (s\<lparr>downloads := downloads s @ [d]\<rparr>))"

text \<open>\<open>await resource.populate(...)\<close> as database call number \<open>n\<close>: a read of the
  referenced documents, which changes nothing stored and may reject. \<open>populate_all\<close> is a
  run of such calls; the first rejection ends it.\<close>

definition populate :: "env \<Rightarrow> nat \<Rightarrow> error option" where
  "populate e n = (if n \<in> dbFail e then Some DatabaseError else None)"

fun populate_all :: "env \<Rightarrow> nat list \<Rightarrow> error option" where
  "populate_all e [] = None"
| "populate_all e (n # ns) = (case populate e n of Some err \<Rightarrow> Some err | None \<Rightarrow> populate_all e ns)"

section \<open>Storage service\<close>

definition console_error :: "string \<Rightarrow> state \<Rightarrow> state" where
  "console_error m s = s\<lparr>console := console s @ [m]\<rparr>"

text \<open>\<open>fs.unlink\<close>: removing a file that is not there fails with ENOENT.\<close>

definition unlink :: "jstring \<Rightarrow> jstring list \<Rightarrow> error + jstring list" where
  "unlink k fs = (if k \<in> set fs then Inr (removeAll k fs) else Inl ENOENT)"

definition Local_deleteFile :: "jstring \<Rightarrow> state \<Rightarrow> error option \<times> state" where
  "Local_deleteFile k s =
     (case unlink k (uploadDir s) of
        Inr fs \<Rightarrow> (None, s\<lparr>uploadDir := fs\<rparr>)
      | Inl err \<Rightarrow> (Some err, console_error ''Error deleting local file:'' s))"

text \<open>\<open>s3Client.send(new DeleteObjectCommand)\<close>: S3 answers a delete of an absent key like
  a delete of a present one; the call rejects when the client does.\<close>

definition S3_deleteFile :: "env \<Rightarrow> jstring \<Rightarrow> state \<Rightarrow> error option \<times> state" where
  "S3_deleteFile e k s =
     (if s3Fail e then (Some S3Error, console_error ''Error deleting S3 file:'' s)
      else (None, s\<lparr>bucket := removeAll k (bucket s)\<rparr>))"

definition deleteFile :: "env \<Rightarrow> jstring \<Rightarrow> state \<Rightarrow> error option \<times> state" where
  "deleteFile e k s = (case driver e of S3 \<Rightarrow> S3_deleteFile e k s | Local \<Rightarrow> Local_deleteFile k s)"

text \<open>A download URL: the local route \<open>/api/files/<key>?name=<originalName>\<close>, or a
  pre-signed S3 URL for the key with its lifetime in seconds.\<close>

datatype url = LocalUrl jstring jstring | SignedUrl jstring jstring nat

definition getDownloadUrl :: "env \<Rightarrow> jstring \<Rightarrow> jstring \<Rightarrow> state \<Rightarrow> (error + url) \<times> state" where
  "getDownloadUrl e k nm s =
     (case driver e of
        Local \<Rightarrow> (Inr (LocalUrl k nm), s)
      | S3 \<Rightarrow>
          if s3Fail e then (Inl S3Error, console_error ''Error generating S3 signed URL:'' s)
          else (Inr (SignedUrl k nm 3600), s))"

section \<open>Moderation controller\<close>

text \<open>A request on a protected route: \<open>req.params.id\<close>, \<open>req.user\<close>, and the result of
  the route's express-validator chain as \<open>validationResult(req)\<close> reports it.\<close>

record request =
  params_id :: oid
  req_user :: principal
  validationErrors :: "string list"

record mod_request = request +
  body_notes :: "jstring option"

definition approveResource :: "env \<Rightarrow> mod_request \<Rightarrow> state \<Rightarrow> resource response \<times> state" where
  "approveResource e req s =
     (if validationErrors req \<noteq> [] then (Invalid (validationErrors req), s)
      else case findById (params_id req) s of
        None \<Rightarrow> (Fail 404 ''Resource not found'', s)
      | Some resource \<Rightarrow>
          if status resource \<noteq> Pending then (Fail 400 ''Resource is not pending moderation'', s)
          else
            let prev = status resource;
                resource1 = resource\<lparr>status := Approved,
                                       moderatedBy := Some (uid (req_user req)),
                                       moderatedAt := Some (now e),
                                       moderationNotes := truthy (body_notes req)\<rparr>
            in case Resource_save e 0 resource1 s of
                 Inl err \<Rightarrow> (Thrown err, s)
               | Inr (resource2, s1) \<Rightarrow>
                   (case ModerationLog_create e 1
                           \<lparr>log_resource = r_id resource2, moderator = uid (req_user req),
                            action = Approved, log_notes = body_notes req,
                            previousStatus = prev, newStatus = status resource2,
                            log_createdAt = now e\<rparr> s1 of
                      Inl err \<Rightarrow> (Thrown err, s1)
                    | Inr s2 \<Rightarrow>
                        (case populate_all e [2, 3, 4] of
                           Some err \<Rightarrow> (Thrown err, s2)
                         | None \<Rightarrow> (Ok 200 resource2, s2))))"

text \<open>The test \<open>!notes || notes.trim().length === 0\<close> of \<open>rejectResource\<close>.\<close>

definition notes_missing :: "jstring option \<Rightarrow> bool" where
  "notes_missing x = (case x of None \<Rightarrow> True | Some n \<Rightarrow> n = [] \<or> length (trim n) = 0)"

definition rejectResource :: "env \<Rightarrow> mod_request \<Rightarrow> state \<Rightarrow> resource response \<times> state" where
  "rejectResource e req s =
     (if validationErrors req \<noteq> [] then (Invalid (validationErrors req), s)
      else if notes_missing (body_notes req)
        then (Fail 400 ''Rejection notes are required'', s)
      else case findById (params_id req) s of
        None \<Rightarrow> (Fail 404 ''Resource not found'', s)
      | Some resource \<Rightarrow>
          if status resource \<noteq> Pending then (Fail 400 ''Resource is not pending moderation'', s)
          else
            let prev = status resource;
                resource1 = resource\<lparr>status := Rejected,
                                       moderatedBy := Some (uid (req_user req)),
                                       moderatedAt := Some (now e),
                                       moderationNotes := body_notes req\<rparr>
            in case Resource_save e 0 resource1 s of
                 Inl err \<Rightarrow> (Thrown err, s)
               | Inr (resource2, s1) \<Rightarrow>
                   (case ModerationLog_create e 1
                           \<lparr>log_resource = r_id resource2, moderator = uid (req_user req),
                            action = Rejected, log_notes = body_notes req,
                            previousStatus = prev, newStatus = status resource2,
                            log_createdAt = now e\<rparr> s1 of
                      Inl err \<Rightarrow> (Thrown err, s1)
                    | Inr s2 \<Rightarrow>
                        (case populate_all e [2, 3, 4] of
                           Some err \<Rightarrow> (Thrown err, s2)
                         | None \<Rightarrow> (Ok 200 resource2, s2))))"

section \<open>Resource controller: writes\<close>

record download_request = request +
  ip :: jstring
  user_agent :: jstring

record download_reply =
  downloadUrl :: url
  reply_id :: oid
  reply_title :: jstring
  reply_file :: file_desc

definition downloadResource ::
  "env \<Rightarrow> download_request \<Rightarrow> state \<Rightarrow> download_reply response \<times> state" where
  "downloadResource e req s =
     (case findById (params_id req) s of
        None \<Rightarrow> (Fail 404 ''Resource not found'', s)
      | Some resource \<Rightarrow>
          if status resource \<noteq> Approved \<and> urole (req_user req) \<noteq> Admin
             \<and> uploader resource \<noteq> uid (req_user req)
          then (Fail 403 ''Access denied'', s)
          else
            (case getDownloadUrl e (key (r_file resource)) (originalName (r_file resource)) s of
               (Inl err, s0) \<Rightarrow>
                 (Fail 500 ''Error generating download URL'', console_error ''Download error:'' s0)
             | (Inr u, s0) \<Rightarrow>
                 (case incrementDownload e resource s0 of
                    (Some err, s1) \<Rightarrow>
                      (Fail 500 ''Error generating download URL'', console_error ''Download error:'' s1)
                  | (None, s1) \<Rightarrow>
                      (case Download_create e 2
                              \<lparr>user = uid (req_user req), dl_resource = r_id resource,
                               downloadedAt = now e, ipAddress = trim (ip req),
                               userAgent = trim (user_agent req), offline = False\<rparr> s1 of
                         Inl err \<Rightarrow>
                           (Fail 500 ''Error generating download URL'',
                            console_error ''Download error:'' s1)
                       | Inr s2 \<Rightarrow>
                           (Ok 200 \<lparr>downloadUrl = u, reply_id = r_id resource,
                                    reply_title = title resource, reply_file = r_file resource\<rparr>,
                            s2)))))"

definition deleteResource :: "env \<Rightarrow> request \<Rightarrow> state \<Rightarrow> unit response \<times> state" where
  "deleteResource e req s =
     (case findById (params_id req) s of
        None \<Rightarrow> (Fail 404 ''Resource not found'', s)
      | Some resource \<Rightarrow>
          if uploader resource \<noteq> uid (req_user req) \<and> urole (req_user req) \<noteq> Admin
          then (Fail 403 ''Access denied'', s)
          else
            (case deleteFile e (key (r_file resource)) s of
               (Some err, s0) \<Rightarrow>
                 (Fail 500 ''Error deleting resource'', console_error ''Delete error:'' s0)
             | (None, s0) \<Rightarrow>
                 (case Resource_findByIdAndDelete e 0 (params_id req) s0 of
                    Inl err \<Rightarrow>
                      (Fail 500 ''Error deleting resource'', console_error ''Delete error:'' s0)
                  | Inr s1 \<Rightarrow>
                      (case School_findByIdAndUpdate e 1 (school resource)
                              (\<lambda>st. st\<lparr>totalResources := totalResources st - 1\<rparr>) s1 of
                         Inl err \<Rightarrow>
                           (Fail 500 ''Error deleting resource'', console_error ''Delete error:'' s1)
                       | Inr s2 \<Rightarrow> (Ok 200 (), s2)))))"

text \<open>The \<open>tags\<close> field of a body: a string, an array, or absent.\<close>

datatype tags_in = TagString jstring | TagArray "jstring list" | TagAbsent

text \<open>\<open>String.prototype.split\<close> on one separator character.\<close>

fun split_on :: "nat \<Rightarrow> jstring \<Rightarrow> jstring list" where
  "split_on c [] = [[]]"
| "split_on c (x # xs) =
     (if x = c then [] # split_on c xs
      else (case split_on c xs of [] \<Rightarrow> [[x]] | w # ws \<Rightarrow> (x # w) # ws))"









section \<open>Queries\<close>

text \<open>\<open>parseInt(x) || d\<close>, the argument being what \<open>parseInt\<close> returned (\<open>None\<close> for NaN):
  NaN and 0 give the default.\<close>

definition or_default :: "int option \<Rightarrow> int \<Rightarrow> int" where
  "or_default x d = (case x of None \<Rightarrow> d | Some n \<Rightarrow> if n = 0 then d else n)"

text \<open>\<open>.skip(k).limit(n)\<close> on a result: the database refuses a negative skip and reads a
  negative limit as its absolute value.\<close>

definition skip_limit :: "int \<Rightarrow> int \<Rightarrow> 'a list \<Rightarrow> error + 'a list" where
  "skip_limit k n xs = (if k < 0 then Inl NegativeSkip else Inr (take (nat \<bar>n\<bar>) (drop (nat k) xs)))"

text \<open>\<open>Math.ceil(total / limit)\<close> on integers, \<open>limit\<close> not 0.\<close>

definition ceil_div :: "int \<Rightarrow> int \<Rightarrow> int" where
  "ceil_div a b = - ((- a) div b)"

record pagination =
  page :: int
  limit :: int
  total :: int
  pages :: int

record 'a listing =
  items :: "'a list"
  pagination :: pagination

record page_query =
  q_page :: "int option"
  q_limit :: "int option"

section \<open>Moderation controller: the queue\<close>

definition getPendingResources :: "page_query \<Rightarrow> state \<Rightarrow> resource listing response" where
  "getPendingResources q s =
     (let page = or_default (q_page q) 1;
          limit = or_default (q_limit q) 20;
          skip = (page - 1) * limit;
          matching = filter (\<lambda>r. status r = Pending) (resources s)
      in case skip_limit skip limit (sort_key createdAt matching) of
           Inl err \<Rightarrow> Thrown err
         | Inr rs \<Rightarrow>
             Ok 200 \<lparr>items = rs,
                     pagination = \<lparr>page = page, limit = limit, total = int (length matching),
                                   pages = ceil_div (int (length matching)) limit\<rparr>\<rparr>)"

section \<open>Resource controller: reads\<close>

text \<open>A request on a public route: \<open>req.user\<close> may be absent.\<close>

record public_request =
  pub_id :: oid
  pub_user :: "principal option"

text \<open>\<open>req.user?.role === 'admin'\<close>.\<close>

definition is_admin :: "principal option \<Rightarrow> bool" where
  "is_admin u = (case u of None \<Rightarrow> False | Some p \<Rightarrow> urole p = Admin)"

definition status_name :: "status \<Rightarrow> jstring" where
  "status_name st = js (case st of Pending \<Rightarrow> ''pending'' | Approved \<Rightarrow> ''approved''
                                  | Rejected \<Rightarrow> ''rejected'')"

record list_query = page_query +
  q_status :: "jstring option"
  q_search :: "jstring option"
  q_subject :: "jstring option"
  q_grade :: "jstring option"
  q_school :: "oid option"
  q_strand :: "jstring option"
  q_tags :: tags_in
  q_uploader :: "oid option"

text \<open>The filter object \<open>query\<close> of \<open>getResources\<close> as a predicate on documents. The
  status condition: \<open>'approved'\<close>, replaced by the requested status or dropped for an
  admin. \<open>tm\<close> is the database's \<open>$text\<close> match.\<close>

definition status_filter :: "principal option \<Rightarrow> jstring option \<Rightarrow> resource \<Rightarrow> bool" where
  "status_filter u st r =
     (if is_admin u \<and> truthy st \<noteq> None then Some (status_name (status r)) = st
      else if is_admin u \<and> truthy st = None then True
      else status r = Approved)"

text \<open>An equality condition on a field whose schema has \<open>trim: true\<close>: the database
  layer casts the value of the filter through the field's setter, so it is compared
  trimmed. \<open>if (x) query.f = x\<close>: an absent or empty parameter sets no condition.\<close>

definition opt_eq :: "jstring option \<Rightarrow> jstring \<Rightarrow> bool" where
  "opt_eq x v = (case truthy x of None \<Rightarrow> True | Some w \<Rightarrow> v = trim w)"

definition tags_filter :: "tags_in \<Rightarrow> resource \<Rightarrow> bool" where
  "tags_filter tg r =
     (case tg of
        TagString str \<Rightarrow>
          str = [] \<or> (\<exists>x \<in> set (tags r). x \<in> set (map trim (split_on 0x2C str)))
      | TagArray ts \<Rightarrow> (\<exists>x \<in> set (tags r). x \<in> set (map trim ts))
      | TagAbsent \<Rightarrow> True)"

definition resources_filter ::
  "(jstring \<Rightarrow> resource \<Rightarrow> bool) \<Rightarrow> principal option \<Rightarrow> list_query \<Rightarrow> resource \<Rightarrow> bool" where
  "resources_filter tm u q r =
     (status_filter u (q_status q) r
      \<and> (case truthy (q_search q) of None \<Rightarrow> True | Some w \<Rightarrow> tm w r)
      \<and> opt_eq (q_subject q) (subject r)
      \<and> opt_eq (q_grade q) (grade r)
      \<and> (case q_school q of None \<Rightarrow> True | Some i \<Rightarrow> school r = i)
      \<and> (case truthy (q_strand q) of None \<Rightarrow> True | Some w \<Rightarrow> strand r = Some (trim w))
      \<and> tags_filter (q_tags q) r
      \<and> (case q_uploader q of None \<Rightarrow> True | Some i \<Rightarrow> uploader r = i))"

record catalog_reply =
  found :: "resource listing"
  filter_subjects :: "jstring list"
  filter_grades :: "jstring list"

definition getResources ::
  "(jstring \<Rightarrow> resource \<Rightarrow> bool) \<Rightarrow> principal option \<Rightarrow> list_query \<Rightarrow> state
     \<Rightarrow> catalog_reply response" where
  "getResources tm u q s =
     (let page = or_default (q_page q) 1;
          limit = or_default (q_limit q) 12;
          skip = (page - 1) * limit;
          matching = filter (resources_filter tm u q) (resources s);
          visible = filter (\<lambda>r. status r = Approved) (resources s)
      in case skip_limit skip limit (sort_key (\<lambda>r. - createdAt r) matching) of
           Inl err \<Rightarrow> Thrown err
         | Inr rs \<Rightarrow>
             Ok 200 \<lparr>found = \<lparr>items = rs,
                       pagination = \<lparr>page = page, limit = limit, total = int (length matching),
                                     pages = ceil_div (int (length matching)) limit\<rparr>\<rparr>,
                     filter_subjects = remdups (map subject visible),
                     filter_grades = remdups (map grade visible)\<rparr>)"

definition getResourceById :: "public_request \<Rightarrow> state \<Rightarrow> resource response" where
  "getResourceById req s =
     (case findById (pub_id req) s of
        None \<Rightarrow> Fail 404 ''Resource not found''
      | Some resource \<Rightarrow>
          if status resource \<noteq> Approved \<and> \<not> is_admin (pub_user req)
          then Fail 404 ''Resource not found''
          else Ok 200 resource)"

text \<open>The query of \<open>getRelatedResources\<close>: another document, approved, sharing the
  subject, the grade, a tag or the school.\<close>

definition related_filter :: "resource \<Rightarrow> resource \<Rightarrow> bool" where
  "related_filter resource r =
     (r_id r \<noteq> r_id resource \<and> status r = Approved
      \<and> (subject r = trim (subject resource) \<or> grade r = trim (grade resource)
           \<or> (\<exists>x \<in> set (tags r). x \<in> set (map trim (tags resource)))
           \<or> school r = school resource))"

text \<open>\<open>.sort({ downloadCount: -1, createdAt: -1 })\<close> as two stable passes.\<close>

definition sort_popular :: "resource list \<Rightarrow> resource list" where
  "sort_popular rs = sort_key (\<lambda>r. - downloadCount r) (sort_key (\<lambda>r. - createdAt r) rs)"

definition getRelatedResources :: "public_request \<Rightarrow> state \<Rightarrow> resource list response" where
  "getRelatedResources req s =
     (case findById (pub_id req) s of
        None \<Rightarrow> Fail 404 ''Resource not found''
      | Some resource \<Rightarrow>
          Ok 200 (take 6 (sort_popular (filter (related_filter resource) (resources s)))))"

section \<open>School controller\<close>

record school_query = page_query +
  sq_subject :: "jstring option"
  sq_grade :: "jstring option"

definition school_filter :: "oid \<Rightarrow> school_query \<Rightarrow> resource \<Rightarrow> bool" where
  "school_filter i q r =
     (school r = i \<and> status r = Approved
      \<and> opt_eq (sq_subject q) (subject r) \<and> opt_eq (sq_grade q) (grade r))"

definition getSchoolResources :: "public_request \<Rightarrow> school_query \<Rightarrow> state \<Rightarrow> catalog_reply response" where
  "getSchoolResources req q s =
     (let schoolId = pub_id req;
          page = or_default (q_page q) 1;
          limit = or_default (q_limit q) 12;
          skip = (page - 1) * limit;
          matching = filter (school_filter schoolId q) (resources s);
          visible = filter (\<lambda>r. school r = schoolId \<and> status r = Approved) (resources s)
      in case skip_limit skip limit (sort_key (\<lambda>r. - createdAt r) matching) of
           Inl err \<Rightarrow> Thrown err
         | Inr rs \<Rightarrow>
             Ok 200 \<lparr>found = \<lparr>items = rs,
                       pagination = \<lparr>page = page, limit = limit, total = int (length matching),
                                     pages = ceil_div (int (length matching)) limit\<rparr>\<rparr>,
                     filter_subjects = remdups (map subject visible),
                     filter_grades = remdups (map grade visible)\<rparr>)"




section \<open>States the handlers produce\<close>



text \<open>What the states have in common when no counter write was lost: document ids are
  unique, every resource's school exists, and each school's cached \<open>totalResources\<close> is
  the number of its resources, of whatever status.\<close>

definition counter_inv :: "state \<Rightarrow> bool" where
  "counter_inv s =
     (distinct (map r_id (resources s))
      \<and> set (map school (resources s)) \<subseteq> dom (schools s)
      \<and> (\<forall>i sch. schools s i = Some sch \<longrightarrow>
             totalResources (statistics sch) = int (count_list (map school (resources s)) i)))"

section \<open>Reading a response\<close>

definition succeeded :: "'a response \<Rightarrow> bool" where
  "succeeded x = (case x of Ok c v \<Rightarrow> True | _ \<Rightarrow> False)"

section \<open>Example data\<close>

definition ex_file :: file_desc where
  "ex_file = \<lparr>originalName = js ''algebra.pdf'', storedName = js ''file-1.pdf'',
              mimeType = js ''application/pdf'', fsize = 1024, key = js ''file-1.pdf''\<rparr>"

text \<open>Resource \<open>i\<close> of school 5, uploaded by teacher 2 at time \<open>t\<close>, in status \<open>st\<close>.\<close>

definition ex_resource :: "oid \<Rightarrow> status \<Rightarrow> date \<Rightarrow> resource" where
  "ex_resource i st t =
     \<lparr>r_id = i, title = js ''Algebra'', description = js ''Worksheet'', r_file = ex_file,
      uploader = 2, school = 5, subject = js ''Mathematics'', grade = js ''Grade 9'',
      strand = None, tags = [js ''math''], status = st, moderationNotes = None,
      moderatedBy = None, moderatedAt = None, downloadCount = 0, isPublic = True,
      createdAt = t, updatedAt = t\<rparr>"

definition ex_school :: "int \<Rightarrow> school_doc" where
  "ex_school n = \<lparr>name = js ''Central High'', code = js ''CHS001'', isActive = True,
                  statistics = \<lparr>totalResources = n, totalDownloads = 0, activeUsers = 0\<rparr>\<rparr>"

text \<open>A catalog holding the resources \<open>rs\<close>, school 5 with cached counter \<open>n\<close>, and the
  one stored file on the local disk.\<close>

definition ex_state :: "resource list \<Rightarrow> int \<Rightarrow> state" where
  "ex_state rs n =
     \<lparr>resources = rs, moderationLogs = [], downloads = [],
      schools = [5 \<mapsto> ex_school n],
      users = [\<lparr>u_id = 1, u_role = Admin, u_school = 5, u_isActive = True\<rparr>,
               \<lparr>u_id = 2, u_role = Teacher, u_school = 5, u_isActive = True\<rparr>,
               \<lparr>u_id = 3, u_role = Student, u_school = 5, u_isActive = True\<rparr>],
      uploadDir = [js ''file-1.pdf''], bucket = [], console = []\<rparr>"

definition ex_env :: "nat set \<Rightarrow> env" where
  "ex_env fails = \<lparr>driver = Local, now = 1000, newId = 10, dbFail = fails, s3Fail = False\<rparr>"

definition ex_admin :: principal where
  "ex_admin = \<lparr>uid = 1, urole = Admin, uschool = 5\<rparr>"

definition ex_teacher :: principal where
  "ex_teacher = \<lparr>uid = 2, urole = Teacher, uschool = 5\<rparr>"

definition ex_student :: principal where
  "ex_student = \<lparr>uid = 3, urole = Student, uschool = 5\<rparr>"

definition ex_mod_request :: "jstring option \<Rightarrow> mod_request" where
  "ex_mod_request n = \<lparr>params_id = 1, req_user = ex_admin, validationErrors = [], body_notes = n\<rparr>"

definition ex_s3_env :: "bool \<Rightarrow> env" where
  "ex_s3_env b = \<lparr>driver = S3, now = 1000, newId = 10, dbFail = {}, s3Fail = b\<rparr>"

text \<open>Student 3 asks for the file of resource 1; teacher 2, its uploader, asks to
  delete it.\<close>

definition ex_download_request :: download_request where
  "ex_download_request = \<lparr>params_id = 1, req_user = ex_student, validationErrors = [],
                           ip = js ''10.0.0.7'', user_agent = js ''Mozilla''\<rparr>"

definition ex_delete_request :: request where
  "ex_delete_request = \<lparr>params_id = 1, req_user = ex_teacher, validationErrors = []\<rparr>"

text \<open>A moderation queue: resources 1, 3 and 4 are pending, created at times 30, 10
  and 20; resource 2 is approved. The request asks for the first page, two per page.\<close>

definition ex_page :: page_query where
  "ex_page = \<lparr>q_page = None, q_limit = Some 2\<rparr>"

definition ex_queue :: state where
  "ex_queue = ex_state [ex_resource 1 Pending 30, ex_resource 2 Approved 5, ex_resource 3 Pending 10,
                        ex_resource 4 Pending 20] 4"

text \<open>Catalog requests: a listing filtered by subject with a status parameter, a school
  listing, and a public request for document \<open>i\<close> by caller \<open>u\<close>.\<close>

definition ex_list_query :: "jstring option \<Rightarrow> list_query" where
  "ex_list_query st = \<lparr>q_page = None, q_limit = None, q_status = st, q_search = None,
     q_subject = Some (js ''Mathematics''), q_grade = None, q_school = None, q_strand = None,
     q_tags = TagAbsent, q_uploader = None\<rparr>"

definition ex_school_query :: school_query where
  "ex_school_query = \<lparr>q_page = None, q_limit = None, sq_subject = None, sq_grade = None\<rparr>"

definition ex_public_request :: "oid \<Rightarrow> principal option \<Rightarrow> public_request" where
  "ex_public_request i u = \<lparr>pub_id = i, pub_user = u\<rparr>"






section \<open>Basic facts of the model layer\<close>

lemmas ex_defs = js_def ex_file_def ex_resource_def ex_school_def ex_state_def ex_env_def ex_admin_def
  ex_teacher_def ex_student_def ex_mod_request_def ex_s3_env_def ex_download_request_def
  ex_delete_request_def

lemma findById_id: "findById i s = Some r \<Longrightarrow> r_id r = i"
  by (auto simp: findById_def find_Some_iff)


lemma findById_resources: "resources s' = resources s \<Longrightarrow> findById i s' = findById i s"
  by (simp add: findById_def)

lemma find_replace:
  "find (\<lambda>r. r_id r = i) xs = Some r \<Longrightarrow> r_id d = i \<Longrightarrow>
   find (\<lambda>r. r_id r = i) (map (\<lambda>x. if r_id x = i then d else x) xs) = Some d"
  by (induction xs) (auto split: if_splits)

lemma Resource_save_Inr:
  assumes "Resource_save e n doc s = Inr (doc', s')" and "findById (r_id doc) s = Some r"
  shows "doc' = doc\<lparr>updatedAt := now e\<rparr>"
    and "findById (r_id doc) s' = Some doc'"
    and "moderationLogs s' = moderationLogs s"
  using assms find_replace [of "r_id doc" "resources s" r "doc\<lparr>updatedAt := now e\<rparr>"]
  by (auto simp: Resource_save_def findById_def Let_def split: option.splits if_splits)

lemma ModerationLog_create_Inr:
  assumes "ModerationLog_create e n l s = Inr s'"
  shows "moderationLogs s' =
           moderationLogs s @ [l\<lparr>log_notes := map_option trim (log_notes l), log_createdAt := now e\<rparr>]"
    and "resources s' = resources s"
  using assms by (auto simp: ModerationLog_create_def Let_def split: option.splits if_splits)

lemma skip_limit_set: "skip_limit k n xs = Inr ys \<Longrightarrow> set ys \<subseteq> set xs"
  by (auto simp: skip_limit_def split: if_splits dest: in_set_takeD in_set_dropD)

section \<open>Moderation of a resource that is not pending\<close>

text \<open>
  Claim C5, as stated, at a concrete input: resource 1 is approved, and an admin rejects it
  with blank notes, which reach the handler as the empty string once the route's
  sanitizer has trimmed them. The handler answers 400 "Rejection notes are required", the
  validation error, not "Resource is not pending moderation"; nothing is written.
\<close>

theorem reject_blank_notes_on_approved:
  "findById 1 (ex_state [ex_resource 1 Approved 0] 1) = Some (ex_resource 1 Approved 0)
   \<and> status (ex_resource 1 Approved 0) \<noteq> Pending
   \<and> rejectResource (ex_env {}) (ex_mod_request (Some [])) (ex_state [ex_resource 1 Approved 0] 1)
       = (Fail 400 ''Rejection notes are required'', ex_state [ex_resource 1 Approved 0] 1)"
  by (simp add: rejectResource_def notes_missing_def trim_def is_space_def ex_defs findById_def)

text \<open>
  Claim C5, amended: on a resource that exists and is not pending, approve and reject fail
  and leave the whole state as it was (no log entry, no field of any resource changed).
  The failure is 400 "Resource is not pending moderation" when the request passed the
  checks that come first in the handler: the validator's result, and for reject the
  presence of non-blank notes. Otherwise it is the validation failure.
\<close>

theorem moderate_non_pending_no_writes:
  assumes "findById (params_id req) s = Some r" and "status r \<noteq> Pending"
  shows "approveResource e req s =
           (if validationErrors req \<noteq> [] then Invalid (validationErrors req)
            else Fail 400 ''Resource is not pending moderation'', s)
       \<and> rejectResource e req s =
           (if validationErrors req \<noteq> [] then Invalid (validationErrors req)
            else if notes_missing (body_notes req) then Fail 400 ''Rejection notes are required''
            else Fail 400 ''Resource is not pending moderation'', s)"
  using assms by (simp add: approveResource_def rejectResource_def)

theorem moderate_non_pending_no_writes_witness:
  "findById 1 (ex_state [ex_resource 1 Rejected 0] 1) = Some (ex_resource 1 Rejected 0)
   \<and> status (ex_resource 1 Rejected 0) \<noteq> Pending
   \<and> approveResource (ex_env {}) (ex_mod_request (Some (js ''fine''))) (ex_state [ex_resource 1 Rejected 0] 1)
       = (Fail 400 ''Resource is not pending moderation'', ex_state [ex_resource 1 Rejected 0] 1)
   \<and> rejectResource (ex_env {}) (ex_mod_request (Some (js ''fine''))) (ex_state [ex_resource 1 Rejected 0] 1)
       = (Fail 400 ''Resource is not pending moderation'', ex_state [ex_resource 1 Rejected 0] 1)"
  using moderate_non_pending_no_writes [of "ex_mod_request (Some (js ''fine''))"
      "ex_state [ex_resource 1 Rejected 0] 1" "ex_resource 1 Rejected 0" "ex_env {}"]
  by (simp add: ex_defs findById_def notes_missing_def trim_def is_space_def)

section \<open>Re-rejecting and re-approving\<close>

text \<open>
  Claim C2, as stated, at a concrete input: resource 1 is approved and an admin rejects it
  with proper notes. The operation does not succeed and the resource stays approved.
\<close>

theorem reject_approved_refused:
  "findById 1 (ex_state [ex_resource 1 Approved 0] 1) = Some (ex_resource 1 Approved 0)
   \<and> rejectResource (ex_env {}) (ex_mod_request (Some (js ''outdated''))) (ex_state [ex_resource 1 Approved 0] 1)
       = (Fail 400 ''Resource is not pending moderation'', ex_state [ex_resource 1 Approved 0] 1)"
  by (simp add: rejectResource_def notes_missing_def trim_def is_space_def ex_defs findById_def)

text \<open>
  Claim C2, amended: the table of the log model's pre-save hook lists approved to rejected
  and rejected to approved, but the operations never get that far. Reject on an approved
  resource and approve on a rejected one do not succeed and leave the state unchanged;
  for a request that passes validation the answer is 400 "Resource is not pending
  moderation".
\<close>

theorem re_moderation_refused:
  assumes "findById (params_id req) s = Some r"
  shows "(status r = Approved \<longrightarrow>
            \<not> succeeded (fst (rejectResource e req s)) \<and> snd (rejectResource e req s) = s
            \<and> (validationErrors req = [] \<and> \<not> notes_missing (body_notes req) \<longrightarrow>
                 fst (rejectResource e req s) = Fail 400 ''Resource is not pending moderation''))
       \<and> (status r = Rejected \<longrightarrow>
            \<not> succeeded (fst (approveResource e req s)) \<and> snd (approveResource e req s) = s
            \<and> (validationErrors req = [] \<longrightarrow>
                 fst (approveResource e req s) = Fail 400 ''Resource is not pending moderation''))
       \<and> Rejected \<in> set (validTransitions Approved) \<and> Approved \<in> set (validTransitions Rejected)"
  using assms
  by (simp add: approveResource_def rejectResource_def succeeded_def validTransitions_def)

theorem re_moderation_refused_witness:
  "findById 1 (ex_state [ex_resource 1 Approved 0] 1) = Some (ex_resource 1 Approved 0)
   \<and> status (ex_resource 1 Approved 0) = Approved
   \<and> validationErrors (ex_mod_request (Some (js ''outdated''))) = []
   \<and> \<not> notes_missing (body_notes (ex_mod_request (Some (js ''outdated''))))
   \<and> fst (rejectResource (ex_env {}) (ex_mod_request (Some (js ''outdated'')))
            (ex_state [ex_resource 1 Approved 0] 1))
       = Fail 400 ''Resource is not pending moderation''
   \<and> findById 1 (ex_state [ex_resource 1 Rejected 0] 1) = Some (ex_resource 1 Rejected 0)
   \<and> status (ex_resource 1 Rejected 0) = Rejected
   \<and> fst (approveResource (ex_env {}) (ex_mod_request None) (ex_state [ex_resource 1 Rejected 0] 1))
       = Fail 400 ''Resource is not pending moderation''"
  using re_moderation_refused [of "ex_mod_request (Some (js ''outdated''))"
      "ex_state [ex_resource 1 Approved 0] 1" "ex_resource 1 Approved 0" "ex_env {}"]
    re_moderation_refused [of "ex_mod_request None"
      "ex_state [ex_resource 1 Rejected 0] 1" "ex_resource 1 Rejected 0" "ex_env {}"]
  by (simp add: ex_defs findById_def notes_missing_def trim_def is_space_def)

section \<open>The two writes of a moderation decision\<close>

lemma length_trim: "length (trim s) \<le> length s"
proof -
  have "length (dropWhile is_space (rev (dropWhile is_space s))) \<le> length (rev (dropWhile is_space s))"
    by (rule length_dropWhile_le)
  also have "\<dots> \<le> length s" by (simp add: length_dropWhile_le)
  finally show ?thesis by (simp add: trim_def)
qed

text \<open>Notes that pass the cap of the resource schema pass the cap of the log schema.\<close>

lemma notes_cap:
  assumes "validate_resource r = None" and "moderationNotes r = truthy n \<or> moderationNotes r = n"
  shows "\<not> (case map_option trim n of None \<Rightarrow> False | Some x \<Rightarrow> 500 < length x)"
proof (cases n)
  case None
  then show ?thesis by simp
next
  case (Some x)
  have "length x \<le> 500"
  proof (cases "x = []")
    case True
    then show ?thesis by simp
  next
    case False
    then have "moderationNotes r = Some x" using assms(2) Some by (simp add: truthy_def)
    then show ?thesis using assms(1)
      by (simp add: validate_resource_def split: if_splits)
  qed
  then show ?thesis using Some length_trim [of x] by simp
qed

lemma approve_pending:
  assumes "findById (params_id req) s = Some r" and "status r = Pending"
    and "validationErrors req = []"
  shows "case approveResource e req s of
            (Ok c x, s') \<Rightarrow>
              findById (params_id req) s' = Some x \<and> status x = Approved
              \<and> (\<exists>l. moderationLogs s' = moderationLogs s @ [l] \<and> log_resource l = params_id req
                      \<and> previousStatus l = Pending \<and> newStatus l = Approved)
          | (Thrown err, s') \<Rightarrow>
              s' = s
              \<or> (\<exists>x. findById (params_id req) s' = Some x \<and> status x = Approved
                    \<and> (moderationLogs s' = moderationLogs s
                         \<or> (\<exists>l. moderationLogs s' = moderationLogs s @ [l]
                                 \<and> log_resource l = params_id req
                                 \<and> previousStatus l = Pending \<and> newStatus l = Approved)))
          | _ \<Rightarrow> False"
proof -
  have i: "r_id r = params_id req" using assms(1) by (rule findById_id)
  define ra where "ra = r\<lparr>status := Approved, moderatedBy := Some (uid (req_user req)),
      moderatedAt := Some (now e), moderationNotes := truthy (body_notes req)\<rparr>"
  have fa: "findById (r_id ra) s = Some r" and ia: "r_id ra = params_id req"
    using assms(1) i by (simp_all add: ra_def)
  show ?thesis
  proof (cases "Resource_save e 0 ra s")
    case (Inl err)
    then show ?thesis using assms by (simp add: approveResource_def ra_def)
  next
    case (Inr p)
    obtain r2 s1 where p: "p = (r2, s1)" by (cases p)
    note sv = Resource_save_Inr [OF Inr [unfolded p] fa]
    have st: "status r2 = Approved" and id2: "r_id r2 = params_id req"
      using sv(1) i by (simp_all add: ra_def)
    define l where "l = \<lparr>log_resource = params_id req, moderator = uid (req_user req),
        action = Approved, log_notes = body_notes req, previousStatus = Pending,
        newStatus = Approved, log_createdAt = now e\<rparr>"
    show ?thesis
    proof (cases "ModerationLog_create e 1 l s1")
      case (Inl err)
      then show ?thesis using assms \<open>Resource_save e 0 ra s = Inr p\<close> p sv st ia
        by (simp add: approveResource_def ra_def [symmetric] l_def [symmetric])
    next
      case (Inr s2)
      note lg = ModerationLog_create_Inr [OF Inr]
      have f2: "findById (params_id req) s2 = Some r2"
        using findById_resources [OF lg(2)] sv(2) ia by simp
      have l2: "\<exists>l'. moderationLogs s2 = moderationLogs s @ [l'] \<and> log_resource l' = params_id req
          \<and> previousStatus l' = Pending \<and> newStatus l' = Approved"
        using lg(1) sv(3) by (simp add: l_def)
      show ?thesis
      proof (cases "populate_all e [2, 3, 4]")
        case None
        then show ?thesis
          using assms \<open>Resource_save e 0 ra s = Inr p\<close> p Inr f2 l2 st id2
          by (simp add: approveResource_def ra_def [symmetric] l_def [symmetric])
      next
        case (Some err)
        then show ?thesis
          using assms \<open>Resource_save e 0 ra s = Inr p\<close> p Inr f2 l2 st id2
          by (simp add: approveResource_def ra_def [symmetric] l_def [symmetric])
      qed
    qed
  qed
qed

lemma approve_log_write_fails:
  assumes "findById (params_id req) s = Some r" and "status r = Pending"
    and "validationErrors req = []"
    and "0 \<notin> dbFail e" and "1 \<in> dbFail e"
    and "validate_resource (r\<lparr>status := Approved, moderatedBy := Some (uid (req_user req)),
           moderatedAt := Some (now e), moderationNotes := truthy (body_notes req)\<rparr>) = None"
  shows "case approveResource e req s of
            (Thrown err, s') \<Rightarrow>
              err = DatabaseError \<and> moderationLogs s' = moderationLogs s
              \<and> (\<exists>x. findById (params_id req) s' = Some x \<and> status x = Approved)
          | _ \<Rightarrow> False"
proof -
  have i: "r_id r = params_id req" using assms(1) by (rule findById_id)
  define ra where "ra = r\<lparr>status := Approved, moderatedBy := Some (uid (req_user req)),
      moderatedAt := Some (now e), moderationNotes := truthy (body_notes req)\<rparr>"
  have fa: "findById (r_id ra) s = Some r" and ia: "r_id ra = params_id req"
    using assms(1) i by (simp_all add: ra_def)
  obtain s1 where sv0: "Resource_save e 0 ra s = Inr (ra\<lparr>updatedAt := now e\<rparr>, s1)"
    using assms by (simp add: Resource_save_def ra_def Let_def)
  note sv = Resource_save_Inr [OF sv0 fa]
  have cap: "\<not> (case map_option trim (body_notes req) of None \<Rightarrow> False | Some x \<Rightarrow> 500 < length x)"
    using notes_cap [of ra "body_notes req"] assms by (simp add: ra_def)
  have "ModerationLog_create e 1 \<lparr>log_resource = params_id req, moderator = uid (req_user req),
        action = Approved, log_notes = body_notes req, previousStatus = Pending,
        newStatus = Approved, log_createdAt = now e\<rparr> s1 = Inl DatabaseError"
    using cap assms by (simp add: ModerationLog_create_def pre_save_def validTransitions_def)
  then show ?thesis
    using assms sv0 sv ia
    by (simp add: approveResource_def ra_def [symmetric]) (simp add: ra_def)
qed

lemma approve_no_fault:
  assumes "findById (params_id req) s = Some r" and "status r = Pending"
    and "validationErrors req = []"
    and "dbFail e = {}"
    and "validate_resource (r\<lparr>status := Approved, moderatedBy := Some (uid (req_user req)),
           moderatedAt := Some (now e), moderationNotes := truthy (body_notes req)\<rparr>) = None"
  shows "succeeded (fst (approveResource e req s))"
proof -
  have i: "r_id r = params_id req" using assms(1) by (rule findById_id)
  define ra where "ra = r\<lparr>status := Approved, moderatedBy := Some (uid (req_user req)),
      moderatedAt := Some (now e), moderationNotes := truthy (body_notes req)\<rparr>"
  obtain s1 where sv0: "Resource_save e 0 ra s = Inr (ra\<lparr>updatedAt := now e\<rparr>, s1)"
    using assms by (simp add: Resource_save_def ra_def Let_def)
  have cap: "\<not> (case map_option trim (body_notes req) of None \<Rightarrow> False | Some x \<Rightarrow> 500 < length x)"
    using notes_cap [of ra "body_notes req"] assms by (simp add: ra_def)
  obtain s2 where "ModerationLog_create e 1 \<lparr>log_resource = params_id req, moderator = uid (req_user req),
        action = Approved, log_notes = body_notes req, previousStatus = Pending,
        newStatus = Approved, log_createdAt = now e\<rparr> s1 = Inr s2"
    using cap assms by (simp add: ModerationLog_create_def pre_save_def validTransitions_def)
  then show ?thesis
    using assms sv0 i
    by (simp add: approveResource_def ra_def [symmetric] populate_def succeeded_def)
      (simp add: ra_def populate_def)
qed

lemma reject_pending:
  assumes "findById (params_id req) s = Some r" and "status r = Pending"
    and "validationErrors req = []" and "\<not> notes_missing (body_notes req)"
  shows "case rejectResource e req s of
            (Ok c x, s') \<Rightarrow>
              findById (params_id req) s' = Some x \<and> status x = Rejected
              \<and> (\<exists>l. moderationLogs s' = moderationLogs s @ [l] \<and> log_resource l = params_id req
                      \<and> previousStatus l = Pending \<and> newStatus l = Rejected)
          | (Thrown err, s') \<Rightarrow>
              s' = s
              \<or> (\<exists>x. findById (params_id req) s' = Some x \<and> status x = Rejected
                    \<and> (moderationLogs s' = moderationLogs s
                         \<or> (\<exists>l. moderationLogs s' = moderationLogs s @ [l]
                                 \<and> log_resource l = params_id req
                                 \<and> previousStatus l = Pending \<and> newStatus l = Rejected)))
          | _ \<Rightarrow> False"
proof -
  have i: "r_id r = params_id req" using assms(1) by (rule findById_id)
  define rr where "rr = r\<lparr>status := Rejected, moderatedBy := Some (uid (req_user req)),
      moderatedAt := Some (now e), moderationNotes := body_notes req\<rparr>"
  have fa: "findById (r_id rr) s = Some r" and ia: "r_id rr = params_id req"
    using assms(1) i by (simp_all add: rr_def)
  show ?thesis
  proof (cases "Resource_save e 0 rr s")
    case (Inl err)
    then show ?thesis using assms by (simp add: rejectResource_def rr_def)
  next
    case (Inr p)
    obtain r2 s1 where p: "p = (r2, s1)" by (cases p)
    note sv = Resource_save_Inr [OF Inr [unfolded p] fa]
    have st: "status r2 = Rejected" and id2: "r_id r2 = params_id req"
      using sv(1) i by (simp_all add: rr_def)
    define l where "l = \<lparr>log_resource = params_id req, moderator = uid (req_user req),
        action = Rejected, log_notes = body_notes req, previousStatus = Pending,
        newStatus = Rejected, log_createdAt = now e\<rparr>"
    show ?thesis
    proof (cases "ModerationLog_create e 1 l s1")
      case (Inl err)
      then show ?thesis using assms \<open>Resource_save e 0 rr s = Inr p\<close> p sv st ia
        by (simp add: rejectResource_def rr_def [symmetric] l_def [symmetric])
    next
      case (Inr s2)
      note lg = ModerationLog_create_Inr [OF Inr]
      have f2: "findById (params_id req) s2 = Some r2"
        using findById_resources [OF lg(2)] sv(2) ia by simp
      have l2: "\<exists>l'. moderationLogs s2 = moderationLogs s @ [l'] \<and> log_resource l' = params_id req
          \<and> previousStatus l' = Pending \<and> newStatus l' = Rejected"
        using lg(1) sv(3) by (simp add: l_def)
      show ?thesis
      proof (cases "populate_all e [2, 3, 4]")
        case None
        then show ?thesis
          using assms \<open>Resource_save e 0 rr s = Inr p\<close> p Inr f2 l2 st id2
          by (simp add: rejectResource_def rr_def [symmetric] l_def [symmetric])
      next
        case (Some err)
        then show ?thesis
          using assms \<open>Resource_save e 0 rr s = Inr p\<close> p Inr f2 l2 st id2
          by (simp add: rejectResource_def rr_def [symmetric] l_def [symmetric])
      qed
    qed
  qed
qed

lemma reject_log_write_fails:
  assumes "findById (params_id req) s = Some r" and "status r = Pending"
    and "validationErrors req = []" and "\<not> notes_missing (body_notes req)"
    and "0 \<notin> dbFail e" and "1 \<in> dbFail e"
    and "validate_resource (r\<lparr>status := Rejected, moderatedBy := Some (uid (req_user req)),
           moderatedAt := Some (now e), moderationNotes := body_notes req\<rparr>) = None"
  shows "case rejectResource e req s of
            (Thrown err, s') \<Rightarrow>
              err = DatabaseError \<and> moderationLogs s' = moderationLogs s
              \<and> (\<exists>x. findById (params_id req) s' = Some x \<and> status x = Rejected)
          | _ \<Rightarrow> False"
proof -
  have i: "r_id r = params_id req" using assms(1) by (rule findById_id)
  define rr where "rr = r\<lparr>status := Rejected, moderatedBy := Some (uid (req_user req)),
      moderatedAt := Some (now e), moderationNotes := body_notes req\<rparr>"
  have fa: "findById (r_id rr) s = Some r" and ia: "r_id rr = params_id req"
    using assms(1) i by (simp_all add: rr_def)
  obtain s1 where sv0: "Resource_save e 0 rr s = Inr (rr\<lparr>updatedAt := now e\<rparr>, s1)"
    using assms by (simp add: Resource_save_def rr_def Let_def)
  note sv = Resource_save_Inr [OF sv0 fa]
  have cap: "\<not> (case map_option trim (body_notes req) of None \<Rightarrow> False | Some x \<Rightarrow> 500 < length x)"
    using notes_cap [of rr "body_notes req"] assms by (simp add: rr_def)
  have "ModerationLog_create e 1 \<lparr>log_resource = params_id req, moderator = uid (req_user req),
        action = Rejected, log_notes = body_notes req, previousStatus = Pending,
        newStatus = Rejected, log_createdAt = now e\<rparr> s1 = Inl DatabaseError"
    using cap assms by (simp add: ModerationLog_create_def pre_save_def validTransitions_def)
  then show ?thesis
    using assms sv0 sv ia
    by (simp add: rejectResource_def rr_def [symmetric]) (simp add: rr_def)
qed

lemma reject_no_fault:
  assumes "findById (params_id req) s = Some r" and "status r = Pending"
    and "validationErrors req = []" and "\<not> notes_missing (body_notes req)"
    and "dbFail e = {}"
    and "validate_resource (r\<lparr>status := Rejected, moderatedBy := Some (uid (req_user req)),
           moderatedAt := Some (now e), moderationNotes := body_notes req\<rparr>) = None"
  shows "succeeded (fst (rejectResource e req s))"
proof -
  have i: "r_id r = params_id req" using assms(1) by (rule findById_id)
  define rr where "rr = r\<lparr>status := Rejected, moderatedBy := Some (uid (req_user req)),
      moderatedAt := Some (now e), moderationNotes := body_notes req\<rparr>"
  obtain s1 where sv0: "Resource_save e 0 rr s = Inr (rr\<lparr>updatedAt := now e\<rparr>, s1)"
    using assms by (simp add: Resource_save_def rr_def Let_def)
  have cap: "\<not> (case map_option trim (body_notes req) of None \<Rightarrow> False | Some x \<Rightarrow> 500 < length x)"
    using notes_cap [of rr "body_notes req"] assms by (simp add: rr_def)
  obtain s2 where "ModerationLog_create e 1 \<lparr>log_resource = params_id req, moderator = uid (req_user req),
        action = Rejected, log_notes = body_notes req, previousStatus = Pending,
        newStatus = Rejected, log_createdAt = now e\<rparr> s1 = Inr s2"
    using cap assms by (simp add: ModerationLog_create_def pre_save_def validTransitions_def)
  then show ?thesis
    using assms sv0 i
    by (simp add: rejectResource_def rr_def [symmetric] populate_def succeeded_def)
      (simp add: rr_def populate_def)
qed

text \<open>
  Claim C3, as stated, at a concrete input: an admin approves pending resource 1, the save
  of the resource goes through and the creation of the log entry (database write 1) fails.
  The handler throws; the stored resource is approved and the log is empty.
\<close>

theorem approve_log_failure_splits_writes:
  "fst (approveResource (ex_env {1}) (ex_mod_request (Some (js ''ok''))) (ex_state [ex_resource 1 Pending 0] 1))
     = Thrown DatabaseError
   \<and> map status (resources (snd (approveResource (ex_env {1}) (ex_mod_request (Some (js ''ok'')))
         (ex_state [ex_resource 1 Pending 0] 1)))) = [Approved]
   \<and> moderationLogs (snd (approveResource (ex_env {1}) (ex_mod_request (Some (js ''ok'')))
         (ex_state [ex_resource 1 Pending 0] 1))) = []"
  by (simp add: approveResource_def findById_def Resource_save_def validate_resource_def
      ModerationLog_create_def pre_save_def validTransitions_def truthy_def trim_def
      is_space_def Let_def ex_defs)

text \<open>
  Claim C3, amended: approve and reject write the resource first and the log entry second,
  as two separate writes, and then read the referenced documents. For a pending resource
  and a request that passes validation the handler either succeeds, and then the stored
  resource has the new status and exactly one entry for it, from pending to the new status,
  was appended; or it throws, and then the state is untouched (the save failed), or holds
  the committed status change without a log entry (the log write failed), or holds both
  writes (a read after them failed). A log entry is never written without the status
  change; the converse does not hold: when the document is valid, the save goes through
  and the log write is rejected, the status change stays without its entry. When no
  database call is rejected and the document is valid, the handler succeeds.
\<close>

theorem moderation_two_writes:
  assumes "findById (params_id req) s = Some r" and "status r = Pending"
    and "validationErrors req = []"
  shows "(case approveResource e req s of
            (Ok c x, s') \<Rightarrow>
              findById (params_id req) s' = Some x \<and> status x = Approved
              \<and> (\<exists>l. moderationLogs s' = moderationLogs s @ [l] \<and> log_resource l = params_id req
                      \<and> previousStatus l = Pending \<and> newStatus l = Approved)
          | (Thrown err, s') \<Rightarrow>
              s' = s
              \<or> (\<exists>x. findById (params_id req) s' = Some x \<and> status x = Approved
                    \<and> (moderationLogs s' = moderationLogs s
                         \<or> (\<exists>l. moderationLogs s' = moderationLogs s @ [l]
                                 \<and> log_resource l = params_id req
                                 \<and> previousStatus l = Pending \<and> newStatus l = Approved)))
          | _ \<Rightarrow> False)
         \<and> (validate_resource (r\<lparr>status := Approved, moderatedBy := Some (uid (req_user req)),
                moderatedAt := Some (now e), moderationNotes := truthy (body_notes req)\<rparr>) = None \<longrightarrow>
              (0 \<notin> dbFail e \<and> 1 \<in> dbFail e \<longrightarrow>
                 (case approveResource e req s of
                    (Thrown err, s') \<Rightarrow>
                      err = DatabaseError \<and> moderationLogs s' = moderationLogs s
                      \<and> (\<exists>x. findById (params_id req) s' = Some x \<and> status x = Approved)
                  | _ \<Rightarrow> False))
              \<and> (dbFail e = {} \<longrightarrow> succeeded (fst (approveResource e req s))))
       \<and> (\<not> notes_missing (body_notes req) \<longrightarrow>
           ((case rejectResource e req s of
              (Ok c x, s') \<Rightarrow>
                findById (params_id req) s' = Some x \<and> status x = Rejected
                \<and> (\<exists>l. moderationLogs s' = moderationLogs s @ [l] \<and> log_resource l = params_id req
                        \<and> previousStatus l = Pending \<and> newStatus l = Rejected)
            | (Thrown err, s') \<Rightarrow>
                s' = s
                \<or> (\<exists>x. findById (params_id req) s' = Some x \<and> status x = Rejected
                      \<and> (moderationLogs s' = moderationLogs s
                           \<or> (\<exists>l. moderationLogs s' = moderationLogs s @ [l]
                                   \<and> log_resource l = params_id req
                                   \<and> previousStatus l = Pending \<and> newStatus l = Rejected)))
            | _ \<Rightarrow> False)
           \<and> (validate_resource (r\<lparr>status := Rejected, moderatedBy := Some (uid (req_user req)),
                  moderatedAt := Some (now e), moderationNotes := body_notes req\<rparr>) = None \<longrightarrow>
                (0 \<notin> dbFail e \<and> 1 \<in> dbFail e \<longrightarrow>
                   (case rejectResource e req s of
                      (Thrown err, s') \<Rightarrow>
                        err = DatabaseError \<and> moderationLogs s' = moderationLogs s
                        \<and> (\<exists>x. findById (params_id req) s' = Some x \<and> status x = Rejected)
                    | _ \<Rightarrow> False))
                \<and> (dbFail e = {} \<longrightarrow> succeeded (fst (rejectResource e req s))))))"
  using approve_pending [OF assms, of e] reject_pending [OF assms, of e]
    approve_log_write_fails [OF assms, of e] reject_log_write_fails [OF assms, of e]
    approve_no_fault [OF assms, of e] reject_no_fault [OF assms, of e]
  by simp

theorem moderation_two_writes_witness:
  "findById 1 (ex_state [ex_resource 1 Pending 0] 1) = Some (ex_resource 1 Pending 0)
   \<and> status (ex_resource 1 Pending 0) = Pending
   \<and> validationErrors (ex_mod_request (Some (js ''ok''))) = []
   \<and> \<not> notes_missing (body_notes (ex_mod_request (Some (js ''ok''))))
   \<and> dbFail (ex_env {}) = {}
   \<and> succeeded (fst (approveResource (ex_env {}) (ex_mod_request (Some (js ''ok''))) (ex_state [ex_resource 1 Pending 0] 1)))
   \<and> succeeded (fst (rejectResource (ex_env {}) (ex_mod_request (Some (js ''ok''))) (ex_state [ex_resource 1 Pending 0] 1)))
   \<and> (case approveResource (ex_env {}) (ex_mod_request (Some (js ''ok''))) (ex_state [ex_resource 1 Pending 0] 1) of
         (Ok c x, s') \<Rightarrow> status x = Approved \<and> length (moderationLogs s') = 1
       | _ \<Rightarrow> False)
   \<and> (case rejectResource (ex_env {}) (ex_mod_request (Some (js ''ok''))) (ex_state [ex_resource 1 Pending 0] 1) of
         (Ok c x, s') \<Rightarrow> status x = Rejected \<and> length (moderationLogs s') = 1
       | _ \<Rightarrow> False)"
  using moderation_two_writes [of "ex_mod_request (Some (js ''ok''))"
      "ex_state [ex_resource 1 Pending 0] 1" "ex_resource 1 Pending 0" "ex_env {}"]
  by (simp add: approveResource_def rejectResource_def findById_def Resource_save_def
      validate_resource_def ModerationLog_create_def pre_save_def validTransitions_def
      populate_def succeeded_def truthy_def notes_missing_def trim_def is_space_def Let_def
      ex_defs)

section \<open>Downloading the same resource twice\<close>

lemmas download_defs = downloadResource_def findById_def getDownloadUrl_def incrementDownload_def
  Resource_save_def validate_resource_def School_findByIdAndUpdate_def Download_create_def
  console_error_def trim_def is_space_def Let_def

text \<open>
  Claim C1 at a concrete input: student 3 downloads approved resource 1 twice. The first
  call succeeds. The second call increments the counter again, is refused by the unique
  index when it creates the download record, and answers 500 "Error generating download
  URL". One record exists for the pair, and the counter stands at 2.
\<close>

theorem download_twice:
  "fst (downloadResource (ex_env {}) ex_download_request (ex_state [ex_resource 1 Approved 0] 1))
     = Ok 200 \<lparr>downloadUrl = LocalUrl (js ''file-1.pdf'') (js ''algebra.pdf''), reply_id = 1,
                reply_title = js ''Algebra'', reply_file = ex_file\<rparr>
   \<and> fst (downloadResource (ex_env {}) ex_download_request
        (snd (downloadResource (ex_env {}) ex_download_request (ex_state [ex_resource 1 Approved 0] 1))))
     = Fail 500 ''Error generating download URL''
   \<and> map downloadCount (resources (snd (downloadResource (ex_env {}) ex_download_request
        (snd (downloadResource (ex_env {}) ex_download_request (ex_state [ex_resource 1 Approved 0] 1))))))
     = [2]
   \<and> map (\<lambda>d. (user d, dl_resource d)) (downloads (snd (downloadResource (ex_env {}) ex_download_request
        (snd (downloadResource (ex_env {}) ex_download_request (ex_state [ex_resource 1 Approved 0] 1))))))
     = [(3, 1)]"
  by (simp add: download_defs ex_defs)

section \<open>Deleting a resource when the storage driver fails\<close>

lemmas delete_defs = deleteResource_def findById_def deleteFile_def Local_deleteFile_def
  S3_deleteFile_def unlink_def Resource_findByIdAndDelete_def School_findByIdAndUpdate_def
  console_error_def

lemma deleteFile_frame:
  "resources (snd (deleteFile e k s)) = resources s \<and> schools (snd (deleteFile e k s)) = schools s
   \<and> moderationLogs (snd (deleteFile e k s)) = moderationLogs s
   \<and> downloads (snd (deleteFile e k s)) = downloads s"
  by (simp add: deleteFile_def Local_deleteFile_def S3_deleteFile_def unlink_def console_error_def
      split: driver.splits)

lemma deleteFile_logs:
  "fst (deleteFile e k s) = Some err \<Longrightarrow>
   console (snd (deleteFile e k s)) =
     console s @ [case driver e of Local \<Rightarrow> ''Error deleting local file:'' | S3 \<Rightarrow> ''Error deleting S3 file:'']"
  by (auto simp add: deleteFile_def Local_deleteFile_def S3_deleteFile_def unlink_def console_error_def
      split: driver.splits if_splits)

text \<open>
  Claim C6, as stated, at a concrete input: teacher 2 deletes their resource 1 while the
  S3 client rejects. The answer is 500 "Error deleting resource"; the resource is still in
  the catalog and the school's counter still reads 1.
\<close>

theorem delete_aborts_on_storage_failure:
  "fst (deleteResource (ex_s3_env True) ex_delete_request (ex_state [ex_resource 1 Approved 0] 1))
     = Fail 500 ''Error deleting resource''
   \<and> resources (snd (deleteResource (ex_s3_env True) ex_delete_request (ex_state [ex_resource 1 Approved 0] 1)))
     = [ex_resource 1 Approved 0]
   \<and> map_option (totalResources \<circ> statistics)
        (schools (snd (deleteResource (ex_s3_env True) ex_delete_request (ex_state [ex_resource 1 Approved 0] 1))) 5)
     = Some 1"
  by (simp add: delete_defs ex_defs)

text \<open>
  Claim C6, amended: when the storage driver's delete fails during a resource delete, the
  operation stops there. The failure is logged by the driver and by the handler, the
  answer is 500 "Error deleting resource", and neither the metadata record is removed nor
  the school's counter decremented.
\<close>

theorem delete_stops_at_storage_failure:
  assumes "findById (params_id req) s = Some r"
    and "uploader r = uid (req_user req) \<or> urole (req_user req) = Admin"
    and "fst (deleteFile e (key (r_file r)) s) = Some err"
  shows "fst (deleteResource e req s) = Fail 500 ''Error deleting resource''
       \<and> resources (snd (deleteResource e req s)) = resources s
       \<and> schools (snd (deleteResource e req s)) = schools s
       \<and> console (snd (deleteResource e req s)) =
           console s @ [case driver e of Local \<Rightarrow> ''Error deleting local file:''
                                       | S3 \<Rightarrow> ''Error deleting S3 file:'',
                        ''Delete error:'']"
proof -
  obtain s0 where d: "deleteFile e (key (r_file r)) s = (Some err, s0)"
    using assms(3) by (cases "deleteFile e (key (r_file r)) s") simp
  have r: "deleteResource e req s = (Fail 500 ''Error deleting resource'', console_error ''Delete error:'' s0)"
    using assms(1,2) d by (auto simp: deleteResource_def)
  have "resources s0 = resources s" "schools s0 = schools s"
    using deleteFile_frame [of e "key (r_file r)" s] d by simp_all
  moreover have "console s0 = console s @ [case driver e of Local \<Rightarrow> ''Error deleting local file:''
                                       | S3 \<Rightarrow> ''Error deleting S3 file:'']"
    using deleteFile_logs [OF assms(3)] d by simp
  ultimately show ?thesis using r by (simp add: console_error_def)
qed

theorem delete_stops_at_storage_failure_witness:
  "findById (params_id ex_delete_request) (ex_state [ex_resource 1 Approved 0] 1) = Some (ex_resource 1 Approved 0)
   \<and> uploader (ex_resource 1 Approved 0) = uid (req_user ex_delete_request)
   \<and> fst (deleteFile (ex_s3_env True) (key (r_file (ex_resource 1 Approved 0))) (ex_state [ex_resource 1 Approved 0] 1))
       = Some S3Error
   \<and> fst (deleteResource (ex_s3_env True) ex_delete_request (ex_state [ex_resource 1 Approved 0] 1))
       = Fail 500 ''Error deleting resource''"
  using delete_stops_at_storage_failure [of ex_delete_request "ex_state [ex_resource 1 Approved 0] 1"
      "ex_resource 1 Approved 0" "ex_s3_env True" S3Error]
  by (simp add: ex_defs findById_def deleteFile_def S3_deleteFile_def)

section \<open>Deleting a stored file twice\<close>

text \<open>
  Claim C7, as stated, at a concrete input: on the local driver the file is deleted, then
  deleted again. The file is gone after the first call, and the second call raises ENOENT.
\<close>

theorem delete_absent_key_raises:
  "(js ''file-1.pdf'') \<notin> set (uploadDir (snd (deleteFile (ex_env {}) (js ''file-1.pdf'') (ex_state [] 0))))
   \<and> fst (deleteFile (ex_env {}) (js ''file-1.pdf'')
             (snd (deleteFile (ex_env {}) (js ''file-1.pdf'') (ex_state [] 0)))) = Some ENOENT"
  by (simp add: delete_defs ex_defs)

text \<open>
  Claim C7, amended: deleting a key twice leaves the store as deleting it once does, with
  the file gone, but the second call is not a quiet success on the local driver:
  \<open>LocalStorageService.deleteFile\<close> succeeds exactly when the file is there, and on an absent
  key it logs the ENOENT of \<open>fs.unlink\<close> and rethrows it. \<open>S3StorageService.deleteFile\<close> raises
  exactly when the S3 client does, after logging; when the client answers, the key is
  gone and a second delete changes nothing.
\<close>

theorem deleteFile_twice:
  "(driver e = Local \<longrightarrow>
      fst (deleteFile e k s) = (if k \<in> set (uploadDir s) then None else Some ENOENT)
      \<and> k \<notin> set (uploadDir (snd (deleteFile e k s)))
      \<and> fst (deleteFile e k (snd (deleteFile e k s))) = Some ENOENT
      \<and> uploadDir (snd (deleteFile e k (snd (deleteFile e k s)))) = uploadDir (snd (deleteFile e k s))
      \<and> console (snd (deleteFile e k (snd (deleteFile e k s))))
          = console (snd (deleteFile e k s)) @ [''Error deleting local file:''])
   \<and> (driver e = S3 \<longrightarrow>
      fst (deleteFile e k s) = (if s3Fail e then Some S3Error else None)
      \<and> (\<not> s3Fail e \<longrightarrow> k \<notin> set (bucket (snd (deleteFile e k s)))
            \<and> bucket (snd (deleteFile e k (snd (deleteFile e k s)))) = bucket (snd (deleteFile e k s))))"
  by (simp add: deleteFile_def Local_deleteFile_def S3_deleteFile_def unlink_def console_error_def)

theorem deleteFile_twice_witness:
  "driver (ex_env {}) = Local
   \<and> fst (deleteFile (ex_env {}) (js ''file-1.pdf'') (ex_state [] 0)) = None
   \<and> fst (deleteFile (ex_env {}) (js ''file-1.pdf'') (snd (deleteFile (ex_env {}) (js ''file-1.pdf'') (ex_state [] 0))))
       = Some ENOENT
   \<and> driver (ex_s3_env False) = S3 \<and> \<not> s3Fail (ex_s3_env False)
   \<and> fst (deleteFile (ex_s3_env False) (js ''file-1.pdf'') (ex_state [] 0)) = None"
  using deleteFile_twice [of "ex_env {}" "js ''file-1.pdf''" "ex_state [] 0"]
    deleteFile_twice [of "ex_s3_env False" "js ''file-1.pdf''" "ex_state [] 0"]
  by (simp add: ex_defs)

section \<open>The moderation queue\<close>

lemma skip_limit_sorted:
  "skip_limit k n xs = Inr ys \<Longrightarrow> sorted (map f xs) \<Longrightarrow> sorted (map f ys)"
  by (auto simp: skip_limit_def take_map [symmetric] drop_map [symmetric] sorted_wrt_take sorted_wrt_drop
      split: if_splits)

lemma skip_limit_Inl: "skip_limit k n xs = Inl err \<Longrightarrow> err = NegativeSkip \<and> k < 0"
  by (auto simp: skip_limit_def split: if_splits)

lemma sorted_lt_index:
  assumes "sorted (map f xs)" and "i < length xs" and "j < length xs" and "f (xs ! i) < f (xs ! j)"
  shows "i < j"
proof (rule ccontr)
  assume "\<not> i < j"
  then have "j \<le> i" by simp
  then have "map f xs ! j \<le> map f xs ! i"
    using assms(1,2) by (intro sorted_nth_mono) simp_all
  then show False using assms(2,3,4) by simp
qed

lemma first_page_keeps_older:
  assumes "sorted (map f xs)" and "r \<in> set (take n xs)" and "r' \<in> set xs" and "f r' < f r"
  shows "r' \<in> set (take n xs)"
proof -
  obtain i where i: "i < length (take n xs)" "take n xs ! i = r"
    using assms(2) by (auto simp: in_set_conv_nth)
  obtain j where j: "j < length xs" "xs ! j = r'"
    using assms(3) by (auto simp: in_set_conv_nth)
  have il: "i < length xs" "i < n" "xs ! i = r" using i by simp_all
  have "j < i" using sorted_lt_index [OF assms(1) j(1) il(1)] j(2) il(3) assms(4) by simp
  then have "j < length (take n xs)" "take n xs ! j = r'" using il j by simp_all
  then show ?thesis by (metis nth_mem)
qed


lemma page_of_sorted:
  assumes "skip_limit k n xs = Inr ys" and "sorted (map f xs)"
  shows "set ys \<subseteq> set xs"
    and "sorted (map f ys)"
    and "\<forall>i j. i < length ys \<and> j < length ys \<and> f (ys ! i) < f (ys ! j) \<longrightarrow> i < j"
    and "k = 0 \<longrightarrow> (\<forall>r \<in> set ys. \<forall>r' \<in> set xs. f r' < f r \<longrightarrow> r' \<in> set ys)"
proof -
  show "set ys \<subseteq> set xs" using skip_limit_set [OF assms(1)] .
  show b: "sorted (map f ys)" using skip_limit_sorted [OF assms] .
  show "\<forall>i j. i < length ys \<and> j < length ys \<and> f (ys ! i) < f (ys ! j) \<longrightarrow> i < j"
    using sorted_lt_index [OF b] by blast
  show "k = 0 \<longrightarrow> (\<forall>r \<in> set ys. \<forall>r' \<in> set xs. f r' < f r \<longrightarrow> r' \<in> set ys)"
  proof (intro impI ballI)
    fix r r' assume "k = 0" and r: "r \<in> set ys" and r': "r' \<in> set xs" and o: "f r' < f r"
    then have ys: "ys = take (nat \<bar>n\<bar>) xs" using assms(1) by (simp add: skip_limit_def)
    show "r' \<in> set ys"
      using first_page_keeps_older [OF assms(2), of r "nat \<bar>n\<bar>" r'] r r' o ys by simp
  qed
qed

lemma page_keeps_older:
  assumes "sorted (map f xs)" and "r \<in> set (take n (drop k xs))" and "r' \<in> set xs"
    and "f r' < f r"
  shows "r' \<in> set (take k xs) \<union> set (take n (drop k xs))"
proof -
  let ?ys = "take n (drop k xs)"
  obtain i where i: "i < length ?ys" "?ys ! i = r"
    using assms(2) by (auto simp: in_set_conv_nth)
  obtain j where j: "j < length xs" "xs ! j = r'"
    using assms(3) by (auto simp: in_set_conv_nth)
  have il: "k + i < length xs" "i < n" "xs ! (k + i) = r" using i by auto
  have lt: "j < k + i"
    using sorted_lt_index [OF assms(1) j(1) il(1)] j(2) il(3) assms(4) by simp
  show ?thesis
  proof (cases "j < k")
    case True
    then have "j < length (take k xs)" "take k xs ! j = r'" using j by simp_all
    then have "r' \<in> set (take k xs)" by (metis nth_mem)
    then show ?thesis by simp
  next
    case False
    then have "j - k < length ?ys" "?ys ! (j - k) = r'" using j lt i(1) by auto
    then have "r' \<in> set ?ys" by (metis nth_mem)
    then show ?thesis by simp
  qed
qed

text \<open>
  Claim C8: the pending-moderation listing returns pending resources oldest first. The
  handler answers unless the requested page makes the skip negative, which the database
  refuses. The answer is a window of the queue: there is an arrangement of the pending
  resources of the catalog, each as often as it is stored, in ascending order of creation
  time, such that the returned list is what is left of it after the resources of the
  earlier pages, cut at the page size; so a pending resource older than a returned one is
  returned with it or stands on an earlier page, and a newer upload never gets ahead of an
  older pending one. In particular every returned resource is a pending resource of the
  catalog, of two returned resources the one created earlier stands before the one created
  later, on the first page no pending resource older than a returned one is left out, the
  page is as long as the queue allows, and the reported total is the number of pending
  resources.
\<close>

theorem pending_queue_oldest_first:
  "case getPendingResources q s of
     Ok c out \<Rightarrow>
       (\<forall>r \<in> set (items out). status r = Pending \<and> r \<in> set (resources s))
       \<and> sorted (map createdAt (items out))
       \<and> (\<forall>i j. i < length (items out) \<and> j < length (items out)
                  \<and> createdAt (items out ! i) < createdAt (items out ! j) \<longrightarrow> i < j)
       \<and> (or_default (q_page q) 1 = 1 \<longrightarrow>
            (\<forall>r \<in> set (items out). \<forall>r' \<in> set (resources s).
               status r' = Pending \<and> createdAt r' < createdAt r \<longrightarrow> r' \<in> set (items out)))
       \<and> 0 \<le> (or_default (q_page q) 1 - 1) * or_default (q_limit q) 20
       \<and> (\<exists>queue.
              mset queue = mset (filter (\<lambda>r. status r = Pending) (resources s))
              \<and> sorted (map createdAt queue)
              \<and> items out = take (nat \<bar>or_default (q_limit q) 20\<bar>)
                    (drop (nat ((or_default (q_page q) 1 - 1) * or_default (q_limit q) 20)) queue)
              \<and> (\<forall>r \<in> set (items out). \<forall>r' \<in> set (resources s).
                    status r' = Pending \<and> createdAt r' < createdAt r \<longrightarrow>
                    r' \<in> set (take (nat ((or_default (q_page q) 1 - 1) * or_default (q_limit q) 20))
                                queue) \<union> set (items out)))
       \<and> length (items out) =
           min (nat \<bar>or_default (q_limit q) 20\<bar>)
               (length (filter (\<lambda>r. status r = Pending) (resources s))
                  - nat ((or_default (q_page q) 1 - 1) * or_default (q_limit q) 20))
       \<and> c = 200
       \<and> pagination out =
           \<lparr>page = or_default (q_page q) 1, limit = or_default (q_limit q) 20,
            total = int (length (filter (\<lambda>r. status r = Pending) (resources s))),
            pages = ceil_div (int (length (filter (\<lambda>r. status r = Pending) (resources s))))
                      (or_default (q_limit q) 20)\<rparr>
   | Thrown err \<Rightarrow> err = NegativeSkip \<and> (or_default (q_page q) 1 - 1) * or_default (q_limit q) 20 < 0
   | _ \<Rightarrow> False"
proof -
  let ?ps = "filter (\<lambda>r. status r = Pending) (resources s)"
  let ?xs = "sort_key createdAt ?ps"
  let ?n = "or_default (q_limit q) 20"
  let ?k = "(or_default (q_page q) 1 - 1) * ?n"
  have sx: "sorted (map createdAt ?xs)" by simp
  have setx: "set ?xs = {r \<in> set (resources s). status r = Pending}" by auto
  have mx: "mset ?xs = mset ?ps" by simp
  show ?thesis
  proof (cases "skip_limit ?k ?n ?xs")
    case (Inl err)
    have "getPendingResources q s = Thrown err"
      using Inl by (simp add: getPendingResources_def Let_def)
    then show ?thesis using skip_limit_Inl [OF Inl] by simp
  next
    case (Inr ys)
    have k0: "0 \<le> ?k" and ys: "ys = take (nat \<bar>?n\<bar>) (drop (nat ?k) ?xs)"
      using Inr by (simp_all add: skip_limit_def split: if_splits)
    have "\<exists>out. getPendingResources q s = Ok 200 out \<and> items out = ys
        \<and> pagination out = \<lparr>page = or_default (q_page q) 1, limit = ?n,
             total = int (length ?ps), pages = ceil_div (int (length ?ps)) ?n\<rparr>"
      using Inr by (simp add: getPendingResources_def Let_def)
    then obtain out where r: "getPendingResources q s = Ok 200 out" and io: "items out = ys"
      and po: "pagination out = \<lparr>page = or_default (q_page q) 1, limit = ?n,
             total = int (length ?ps), pages = ceil_div (int (length ?ps)) ?n\<rparr>"
      by blast
    note pg = page_of_sorted [OF Inr sx]
    have a: "\<forall>r \<in> set ys. status r = Pending \<and> r \<in> set (resources s)"
      using pg(1) setx by auto
    have d: "or_default (q_page q) 1 = 1 \<longrightarrow>
            (\<forall>r \<in> set ys. \<forall>r' \<in> set (resources s).
               status r' = Pending \<and> createdAt r' < createdAt r \<longrightarrow> r' \<in> set ys)"
    proof (intro impI ballI)
      fix r r' assume p: "or_default (q_page q) 1 = 1" and r: "r \<in> set ys"
        and r': "r' \<in> set (resources s)"
        and o: "status r' = Pending \<and> createdAt r' < createdAt r"
      have k0: "?k = 0" using p by simp
      have x: "r' \<in> set ?xs" using r' o by simp
      have lt: "createdAt r' < createdAt r" using o by simp
      show "r' \<in> set ys" by (rule pg(4) [rule_format, OF k0 r x lt])
    qed
    have g: "\<forall>r \<in> set ys. \<forall>r' \<in> set (resources s).
               status r' = Pending \<and> createdAt r' < createdAt r \<longrightarrow>
               r' \<in> set (take (nat ?k) ?xs) \<union> set ys"
    proof (intro impI ballI)
      fix r r' assume r: "r \<in> set ys" and r': "r' \<in> set (resources s)"
        and o: "status r' = Pending \<and> createdAt r' < createdAt r"
      have x: "r' \<in> set ?xs" using r' o by simp
      have lt: "createdAt r' < createdAt r" using o by simp
      show "r' \<in> set (take (nat ?k) ?xs) \<union> set ys"
        unfolding ys by (rule page_keeps_older [OF sx r [unfolded ys] x lt])
    qed
    have q: "\<exists>queue. mset queue = mset ?ps \<and> sorted (map createdAt queue)
              \<and> ys = take (nat \<bar>?n\<bar>) (drop (nat ?k) queue)
              \<and> (\<forall>r \<in> set ys. \<forall>r' \<in> set (resources s).
                    status r' = Pending \<and> createdAt r' < createdAt r \<longrightarrow>
                    r' \<in> set (take (nat ?k) queue) \<union> set ys)"
      by (rule exI [of _ ?xs]) (intro conjI mx sx ys g)
    have len: "length ys = min (nat \<bar>?n\<bar>) (length ?ps - nat ?k)"
      unfolding ys by (simp add: min.commute)
    have c: "(200::nat) = 200" by (rule refl)
    have "(\<forall>r \<in> set (items out). status r = Pending \<and> r \<in> set (resources s))
       \<and> sorted (map createdAt (items out))
       \<and> (\<forall>i j. i < length (items out) \<and> j < length (items out)
                  \<and> createdAt (items out ! i) < createdAt (items out ! j) \<longrightarrow> i < j)
       \<and> (or_default (q_page q) 1 = 1 \<longrightarrow>
            (\<forall>r \<in> set (items out). \<forall>r' \<in> set (resources s).
               status r' = Pending \<and> createdAt r' < createdAt r \<longrightarrow> r' \<in> set (items out)))
       \<and> 0 \<le> ?k
       \<and> (\<exists>queue. mset queue = mset ?ps \<and> sorted (map createdAt queue)
              \<and> items out = take (nat \<bar>?n\<bar>) (drop (nat ?k) queue)
              \<and> (\<forall>r \<in> set (items out). \<forall>r' \<in> set (resources s).
                    status r' = Pending \<and> createdAt r' < createdAt r \<longrightarrow>
                    r' \<in> set (take (nat ?k) queue) \<union> set (items out)))
       \<and> length (items out) = min (nat \<bar>?n\<bar>) (length ?ps - nat ?k)
       \<and> (200::nat) = 200
       \<and> pagination out = \<lparr>page = or_default (q_page q) 1, limit = ?n,
             total = int (length ?ps), pages = ceil_div (int (length ?ps)) ?n\<rparr>"
      unfolding io by (intro conjI a pg(2) pg(3) d k0 q len c po)
    then show ?thesis unfolding r response.case .
  qed
qed

theorem pending_queue_oldest_first_witness:
  "getPendingResources ex_page ex_queue =
     Ok 200 \<lparr>items = [ex_resource 3 Pending 10, ex_resource 4 Pending 20],
             pagination = \<lparr>page = 1, limit = 2, total = 3, pages = 2\<rparr>\<rparr>
   \<and> getPendingResources \<lparr>q_page = Some 2, q_limit = Some 2\<rparr> ex_queue =
     Ok 200 \<lparr>items = [ex_resource 1 Pending 30],
             pagination = \<lparr>page = 2, limit = 2, total = 3, pages = 2\<rparr>\<rparr>
   \<and> sorted (map createdAt [ex_resource 3 Pending 10, ex_resource 4 Pending 20])
   \<and> createdAt (ex_resource 3 Pending 10) < createdAt (ex_resource 4 Pending 20)"
proof -
  have v: "getPendingResources ex_page ex_queue =
     Ok 200 \<lparr>items = [ex_resource 3 Pending 10, ex_resource 4 Pending 20],
             pagination = \<lparr>page = 1, limit = 2, total = 3, pages = 2\<rparr>\<rparr>"
    by (simp add: getPendingResources_def or_default_def skip_limit_def ceil_div_def Let_def
        ex_page_def ex_queue_def ex_state_def ex_resource_def)
  have w: "getPendingResources \<lparr>q_page = Some 2, q_limit = Some 2\<rparr> ex_queue =
     Ok 200 \<lparr>items = [ex_resource 1 Pending 30],
             pagination = \<lparr>page = 2, limit = 2, total = 3, pages = 2\<rparr>\<rparr>"
    by (simp add: getPendingResources_def or_default_def skip_limit_def ceil_div_def Let_def
        ex_queue_def ex_state_def ex_resource_def)
  note t = pending_queue_oldest_first [where q = ex_page and s = ex_queue,
      unfolded v response.case listing.select_convs]
  have "sorted (map createdAt [ex_resource 3 Pending 10, ex_resource 4 Pending 20])"
    by (rule conjunct1 [OF conjunct2 [OF t]])
  moreover have "createdAt (ex_resource 3 Pending 10) < createdAt (ex_resource 4 Pending 20)"
    by (simp add: ex_resource_def)
  ultimately show ?thesis using v w by (intro conjI)
qed

section \<open>The catalog listing and the status parameter\<close>

lemma status_filter_non_admin: "\<not> is_admin u \<Longrightarrow> status_filter u st r = (status r = Approved)"
  by (simp add: status_filter_def)

lemma resources_filter_non_admin:
  "\<not> is_admin u \<Longrightarrow>
   resources_filter tm u (q\<lparr>q_status := st\<rparr>) = resources_filter tm u (q\<lparr>q_status := st'\<rparr>)"
  by (rule ext) (simp add: resources_filter_def status_filter_non_admin)

lemma resources_filter_approved:
  "\<not> is_admin u \<Longrightarrow> resources_filter tm u q r \<Longrightarrow> status r = Approved"
  by (simp add: resources_filter_def status_filter_non_admin)

lemma getResources_items:
  assumes "getResources tm u q s = Ok c out" and "r \<in> set (items (found out))"
  shows "resources_filter tm u q r \<and> r \<in> set (resources s)"
proof -
  let ?xs = "sort_key (\<lambda>r. - createdAt r) (filter (resources_filter tm u q) (resources s))"
  obtain ys where ys: "skip_limit ((or_default (q_page q) 1 - 1) * or_default (q_limit q) 12)
      (or_default (q_limit q) 12) ?xs = Inr ys" and "items (found out) = ys"
    using assms(1) by (auto simp: getResources_def Let_def split: sum.splits)
  then have "r \<in> set ?xs" using skip_limit_set [OF ys] assms(2) by auto
  then show ?thesis by simp
qed

text \<open>
  Claim C9: for a caller who is not an admin, unauthenticated callers included, the
  resource listing does not depend on the \<open>status\<close> query parameter: two requests that
  differ only there get the same answer over the same catalog, and every resource in an
  answer is approved.
\<close>

theorem listing_ignores_status_for_non_admin:
  assumes "\<not> is_admin u"
  shows "getResources tm u (q\<lparr>q_status := st\<rparr>) s = getResources tm u (q\<lparr>q_status := st'\<rparr>) s
       \<and> (\<forall>c out. getResources tm u q s = Ok c out \<longrightarrow>
             (\<forall>r \<in> set (items (found out)). status r = Approved))"
proof
  show "getResources tm u (q\<lparr>q_status := st\<rparr>) s = getResources tm u (q\<lparr>q_status := st'\<rparr>) s"
    by (simp add: getResources_def resources_filter_non_admin [OF assms, where tm = tm and q = q and st = st and st' = st'])
  show "\<forall>c out. getResources tm u q s = Ok c out \<longrightarrow>
             (\<forall>r \<in> set (items (found out)). status r = Approved)"
    using getResources_items resources_filter_approved [OF assms] by blast
qed

theorem listing_ignores_status_for_non_admin_witness:
  "\<not> is_admin (Some ex_student)
   \<and> getResources (\<lambda>w r. True) (Some ex_student) (ex_list_query (Some (js ''pending''))) ex_queue
       = getResources (\<lambda>w r. True) (Some ex_student) (ex_list_query None) ex_queue
   \<and> (case getResources (\<lambda>w r. True) (Some ex_student) (ex_list_query (Some (js ''pending''))) ex_queue of
         Ok c out \<Rightarrow> map r_id (items (found out)) = [2] \<and> map status (items (found out)) = [Approved]
       | _ \<Rightarrow> False)"
proof -
  have a: "\<not> is_admin (Some ex_student)" by (simp add: is_admin_def ex_student_def)
  have e: "(ex_list_query None)\<lparr>q_status := Some (js ''pending'')\<rparr> = ex_list_query (Some (js ''pending''))"
    "(ex_list_query None)\<lparr>q_status := None\<rparr> = ex_list_query None"
    by (simp_all add: ex_list_query_def)
  note t = listing_ignores_status_for_non_admin [OF a, where tm = "\<lambda>w r. True"
      and q = "ex_list_query None" and st = "Some (js ''pending'')" and st' = None and s = ex_queue,
      unfolded e]
  have v: "getResources (\<lambda>w r. True) (Some ex_student) (ex_list_query (Some (js ''pending''))) ex_queue
      = Ok 200 \<lparr>found = \<lparr>items = [ex_resource 2 Approved 5],
                 pagination = \<lparr>page = 1, limit = 12, total = 1, pages = 1\<rparr>\<rparr>,
               filter_subjects = [js ''Mathematics''], filter_grades = [js ''Grade 9'']\<rparr>"
    by (simp add: getResources_def resources_filter_def status_filter_def is_admin_def opt_eq_def
        truthy_def tags_filter_def or_default_def skip_limit_def ceil_div_def Let_def
        trim_def is_space_def js_def
        ex_list_query_def ex_queue_def ex_state_def ex_resource_def ex_student_def)
  have "case getResources (\<lambda>w r. True) (Some ex_student) (ex_list_query (Some (js ''pending''))) ex_queue of
         Ok c out \<Rightarrow> map r_id (items (found out)) = [2] \<and> map status (items (found out)) = [Approved]
       | _ \<Rightarrow> False"
    unfolding v by (simp add: ex_resource_def)
  with a conjunct1 [OF t] show ?thesis by (intro conjI)
qed

section \<open>Who can read a resource that is not approved\<close>

lemma related_items:
  assumes "getRelatedResources req s = Ok c out" and "r \<in> set out"
  shows "status r = Approved"
proof -
  obtain resource where "out = take 6 (sort_popular (filter (related_filter resource) (resources s)))"
    using assms(1) by (auto simp: getRelatedResources_def split: option.splits)
  then have "r \<in> set (filter (related_filter resource) (resources s))"
    using assms(2) by (auto simp: sort_popular_def dest: in_set_takeD)
  then show ?thesis by (simp add: related_filter_def)
qed

lemma school_items:
  assumes "getSchoolResources req q s = Ok c out" and "r \<in> set (items (found out))"
  shows "status r = Approved"
proof -
  let ?xs = "sort_key (\<lambda>r. - createdAt r) (filter (school_filter (pub_id req) q) (resources s))"
  obtain ys where ys: "skip_limit ((or_default (q_page q) 1 - 1) * or_default (q_limit q) 12)
      (or_default (q_limit q) 12) ?xs = Inr ys" and "items (found out) = ys"
    using assms(1) by (auto simp: getSchoolResources_def Let_def split: sum.splits)
  then have "r \<in> set ?xs" using skip_limit_set [OF ys] assms(2) by auto
  then show ?thesis by (simp add: school_filter_def)
qed

text \<open>
  Claim C4, as stated, at a concrete input: teacher 2 asks for resource 1, which they
  uploaded and which is pending. The detail view answers 404 "Resource not found".
\<close>

theorem uploader_cannot_read_own_pending:
  "findById 1 ex_queue = Some (ex_resource 1 Pending 30)
   \<and> uploader (ex_resource 1 Pending 30) = uid ex_teacher
   \<and> getResourceById (ex_public_request 1 (Some ex_teacher)) ex_queue = Fail 404 ''Resource not found''"
  by (simp add: getResourceById_def findById_def is_admin_def ex_public_request_def ex_queue_def
      ex_state_def ex_resource_def ex_teacher_def)

text \<open>
  Claim C4, amended: a resource that is not approved is returned by the get-by-id detail
  view to admins only; every other caller, the uploader included, gets 404. The
  related-resources listing and the school-resources listing never contain it, whoever
  asks. So no read path returns it to a caller who is neither its uploader nor an admin.
\<close>

theorem non_approved_visibility:
  assumes "status r \<noteq> Approved"
  shows "(findById (pub_id req) s = Some r \<longrightarrow>
            getResourceById req s =
              (if is_admin (pub_user req) then Ok 200 r else Fail 404 ''Resource not found''))
       \<and> (\<forall>c out. getRelatedResources req s = Ok c out \<longrightarrow> r \<notin> set out)
       \<and> (\<forall>c out. getSchoolResources req q s = Ok c out \<longrightarrow> r \<notin> set (items (found out)))"
proof (intro conjI)
  show "findById (pub_id req) s = Some r \<longrightarrow>
            getResourceById req s =
              (if is_admin (pub_user req) then Ok 200 r else Fail 404 ''Resource not found'')"
    using assms by (simp add: getResourceById_def)
  show "\<forall>c out. getRelatedResources req s = Ok c out \<longrightarrow> r \<notin> set out"
    using assms related_items by blast
  show "\<forall>c out. getSchoolResources req q s = Ok c out \<longrightarrow> r \<notin> set (items (found out))"
    using assms school_items by blast
qed

theorem non_approved_visibility_witness:
  "status (ex_resource 1 Pending 30) \<noteq> Approved
   \<and> findById (pub_id (ex_public_request 1 (Some ex_admin))) ex_queue = Some (ex_resource 1 Pending 30)
   \<and> getResourceById (ex_public_request 1 (Some ex_admin)) ex_queue = Ok 200 (ex_resource 1 Pending 30)
   \<and> getResourceById (ex_public_request 1 (Some ex_student)) ex_queue = Fail 404 ''Resource not found''
   \<and> getRelatedResources (ex_public_request 3 (Some ex_teacher)) ex_queue = Ok 200 [ex_resource 2 Approved 5]
   \<and> ex_resource 1 Pending 30 \<notin> set [ex_resource 2 Approved 5]"
proof -
  have a: "status (ex_resource 1 Pending 30) \<noteq> Approved" by (simp add: ex_resource_def)
  have f: "findById (pub_id (ex_public_request 1 (Some ex_admin))) ex_queue = Some (ex_resource 1 Pending 30)"
    "findById (pub_id (ex_public_request 1 (Some ex_student))) ex_queue = Some (ex_resource 1 Pending 30)"
    by (simp_all add: findById_def ex_public_request_def ex_queue_def ex_state_def ex_resource_def)
  have ad: "is_admin (pub_user (ex_public_request 1 (Some ex_admin)))"
    "\<not> is_admin (pub_user (ex_public_request 1 (Some ex_student)))"
    by (simp_all add: is_admin_def ex_public_request_def ex_admin_def ex_student_def)
  have g: "getRelatedResources (ex_public_request 3 (Some ex_teacher)) ex_queue = Ok 200 [ex_resource 2 Approved 5]"
    by (simp add: getRelatedResources_def findById_def related_filter_def sort_popular_def
        ex_public_request_def ex_queue_def ex_state_def ex_resource_def)
  note t1 = non_approved_visibility [OF a, where req = "ex_public_request 1 (Some ex_admin)"
      and s = ex_queue and q = ex_school_query]
  note t2 = non_approved_visibility [OF a, where req = "ex_public_request 1 (Some ex_student)"
      and s = ex_queue and q = ex_school_query]
  note t3 = non_approved_visibility [OF a, where req = "ex_public_request 3 (Some ex_teacher)"
      and s = ex_queue and q = ex_school_query]
  have 1: "getResourceById (ex_public_request 1 (Some ex_admin)) ex_queue = Ok 200 (ex_resource 1 Pending 30)"
    using conjunct1 [OF t1] f(1) ad(1) by simp
  have 2: "getResourceById (ex_public_request 1 (Some ex_student)) ex_queue = Fail 404 ''Resource not found''"
    using conjunct1 [OF t2] f(2) ad(2) by simp
  have 3: "ex_resource 1 Pending 30 \<notin> set [ex_resource 2 Approved 5]"
    using conjunct1 [OF conjunct2 [OF t3]] g by blast
  show ?thesis using a f(1) 1 2 g 3 by (intro conjI)
qed

section \<open>The cached resource counter of a school\<close>

lemma counter_inv_frame:
  "counter_inv s \<Longrightarrow> resources s' = resources s \<Longrightarrow> schools s' = schools s \<Longrightarrow> counter_inv s'"
  by (simp add: counter_inv_def)








lemma deleteFile_inv: "counter_inv s \<Longrightarrow> counter_inv (snd (deleteFile e k s))"
  by (rule counter_inv_frame [of s])
     (simp_all add: deleteFile_def Local_deleteFile_def S3_deleteFile_def unlink_def
        console_error_def split: driver.splits)






























end
